theory Spec2Isabelle
  imports Complex_Main
begin

section \<open>The automatic cycle-detection engine of the video analyzer\<close>

text \<open>
  A shallow embedding of the engine inside the \<open>VideoAnalyzer\<close> component
  (\<open>src/unnamed/part_000\<close>) and of the types it uses (\<open>src/unnamed/part_003\<close>).
  JavaScript numbers are modelled as \<open>real\<close>: the development reasons about the
  arithmetic the source writes down, read over the real numbers, and leaves IEEE rounding,
  NaN and the infinities out.  The mutable cells of the component (\<open>useRef\<close> and
  \<open>useState\<close>) are fields of records that every operation takes and returns; the
  callbacks \<open>onCycleComplete\<close> and the OpenCV calls are made explicit as results
  and parameters.
\<close>

subsection \<open>Types (\<open>types.ts\<close>)\<close>

text \<open>
  The fields \<open>x\<close>, \<open>y\<close> of \<open>Rect\<close> and \<open>Point\<close> and the field \<open>id\<close>
  of \<open>Cycle\<close> and \<open>TriggerStep\<close> carry a prefix, since a record field is a constant
  of the theory.
\<close>

record Rect =
  rect_x :: real
  rect_y :: real
  width :: real
  height :: real

record Point =
  pt_x :: real
  pt_y :: real

datatype CycleStatus = ok | over | abnormal

datatype AILabel = Operation | Transport | Idle | Unknown

datatype AIActionType = IDLE_ACTION | OPERATION | TRANSPORT | SETUP

record Cycle =
  cycle_id :: int
  startTime :: real
  endTime :: real
  duration :: real
  status :: CycleStatus
  aiLabel :: "AILabel option"

record TriggerStep =
  step_id :: string
  name :: string
  rect :: Rect
  isActive :: bool
  hitCount :: int

subsection \<open>Configuration\<close>

definition BLUR_SIZE :: nat where "BLUR_SIZE = 5"
definition DIFF_THRESHOLD :: nat where "DIFF_THRESHOLD = 25"
definition EMA_ALPHA :: real where "EMA_ALPHA = 0.2"
definition MIN_CYCLE_TIME :: real where "MIN_CYCLE_TIME = 1.0"

text \<open>The two props of the component that the controller reads.\<close>

record Props =
  taktTime :: real
  sensitivity :: real

definition highThreshold :: "Props \<Rightarrow> real" where
  "highThreshold p = max 0.01 (0.35 - (sensitivity p * 0.02))"

definition lowThreshold :: "Props \<Rightarrow> real" where
  "lowThreshold p = highThreshold p * 0.6"

subsection \<open>The logic controller (\<open>processLogic\<close>)\<close>

datatype LogicState = IDLE | TRIGGERED | COOLDOWN

text \<open>
  The three cells the controller owns.  \<open>visualState\<close> and the status messages are
  presentation only and are not modelled.
\<close>

record Logic =
  logicState :: LogicState
  cycleStartTime :: real
  cooldownTimer :: real

text \<open>
  What the controller reads from its surroundings during one call: the current
  classification \<open>aiState.current.currentAction\<close> and the wall clock \<open>Date.now()\<close>.
\<close>

record Ambient =
  aiAction :: AIActionType
  dateNow :: int

text \<open>
  \<open>processLogic\<close> returns the new cells and the cycle handed to
  \<open>onCycleComplete\<close>, if the call made one (the source has a single call site).
\<close>

definition processLogic ::
    "Props \<Rightarrow> Ambient \<Rightarrow> Logic \<Rightarrow> real \<Rightarrow> real \<Rightarrow> Logic \<times> Cycle option" where
  "processLogic p amb st score timestamp =
    (if logicState st = COOLDOWN then
       (if timestamp > cooldownTimer st then (st\<lparr>logicState := IDLE\<rparr>, None)
        else (st, None))
     else if logicState st = IDLE then
       (if score > highThreshold p
        then (st\<lparr>logicState := TRIGGERED, cycleStartTime := timestamp\<rparr>, None)
        else (st, None))
     else if logicState st = TRIGGERED then
       (if score < lowThreshold p then
          (let d = timestamp - cycleStartTime st in
           if d > MIN_CYCLE_TIME then
             (let st0 = (if d > taktTime p then over else ok);
                  lbl = aiAction amb
              in (st\<lparr>logicState := COOLDOWN, cooldownTimer := timestamp + 1.5\<rparr>,
                  Some \<lparr>cycle_id = dateNow amb,
                        startTime = cycleStartTime st,
                        endTime = timestamp,
                        duration = d,
                        status = st0,
                        aiLabel = Some (if lbl = IDLE_ACTION then Operation
                                        else if lbl = TRANSPORT then Transport
                                        else Operation)\<rparr>))
           else (st\<lparr>logicState := IDLE\<rparr>, None))
        else (st, None))
     else (st, None))"

text \<open>
  One processed frame as the controller sees it, and a run of the controller over a
  sequence of frames, collecting the cycles in the order of the calls to
  \<open>onCycleComplete\<close>.
\<close>

record Tick =
  tick_score :: real
  tick_time :: real
  tick_env :: Ambient

definition tick :: "Props \<Rightarrow> Logic \<Rightarrow> Tick \<Rightarrow> Logic \<times> Cycle option" where
  "tick p st f = processLogic p (tick_env f) st (tick_score f) (tick_time f)"

fun emitted :: "Props \<Rightarrow> Logic \<Rightarrow> Tick list \<Rightarrow> Cycle list" where
  "emitted p st [] = []"
| "emitted p st (f # fs) =
     (case tick p st f of
        (st', None) \<Rightarrow> emitted p st' fs
      | (st', Some c) \<Rightarrow> c # emitted p st' fs)"

text \<open>The cells as the component initialises them.\<close>

definition initLogic :: Logic where
  "initLogic = \<lparr>logicState = IDLE, cycleStartTime = 0, cooldownTimer = 0\<rparr>"

subsection \<open>OpenCV matrices and the calls the scorer makes\<close>

text \<open>
  A \<open>cv.Mat\<close>: its size, its pixels (row, then column; an 8-bit intensity kept as a
  natural number) and whether \<open>delete()\<close> was called on it.  OpenCV is a library
  outside the repository, so each call is modelled by what its documentation says of it:
  \<open>roi\<close>/\<open>clone\<close> copy a window, \<open>absdiff\<close> needs operands of one size and
  throws otherwise, \<open>threshold\<close> with \<open>THRESH_BINARY\<close> maps a pixel above the
  cutoff to \<open>maxval\<close> and the others to 0, \<open>countNonZero\<close> counts.  The
  arithmetic of \<open>GaussianBlur\<close> is a parameter \<open>g\<close> (kernel size, rows, columns
  and pixels to pixels); the result has the size of the source.
\<close>

record Mat =
  rows :: int
  cols :: int
  pixel :: "int \<Rightarrow> int \<Rightarrow> nat"
  isDeleted :: bool

type_synonym Blur = "nat \<Rightarrow> int \<Rightarrow> int \<Rightarrow> (int \<Rightarrow> int \<Rightarrow> nat) \<Rightarrow> (int \<Rightarrow> int \<Rightarrow> nat)"

definition roi_clone :: "Mat \<Rightarrow> int \<Rightarrow> int \<Rightarrow> int \<Rightarrow> int \<Rightarrow> Mat" where
  "roi_clone m x0 y0 w h =
     \<lparr>rows = h, cols = w, pixel = (\<lambda>i j. pixel m (y0 + i) (x0 + j)), isDeleted = False\<rparr>"

definition GaussianBlur :: "Blur \<Rightarrow> Mat \<Rightarrow> nat \<Rightarrow> Mat" where
  "GaussianBlur g m ksize = m\<lparr>pixel := g ksize (rows m) (cols m) (pixel m)\<rparr>"

definition absdiff :: "Mat \<Rightarrow> Mat \<Rightarrow> Mat option" where
  "absdiff a b =
     (if rows a = rows b \<and> cols a = cols b then
        Some \<lparr>rows = rows a, cols = cols a,
              pixel = (\<lambda>i j. if pixel b i j \<le> pixel a i j
                               then pixel a i j - pixel b i j
                               else pixel b i j - pixel a i j),
              isDeleted = False\<rparr>
      else None)"

definition threshold :: "Mat \<Rightarrow> nat \<Rightarrow> nat \<Rightarrow> Mat" where
  "threshold m thresh maxval =
     m\<lparr>pixel := (\<lambda>i j. if thresh < pixel m i j then maxval else 0)\<rparr>"

definition countNonZero :: "Mat \<Rightarrow> nat" where
  "countNonZero m =
     length (filter (\<lambda>(i, j). pixel m i j \<noteq> 0)
               (List.product [0 .. rows m - 1] [0 .. cols m - 1]))"

subsection \<open>The change scorer (\<open>extractRoiMat\<close>, \<open>calculateChangeScore\<close>)\<close>

definition extractRoiMat :: "Rect \<Rightarrow> Mat \<Rightarrow> Mat option" where
  "extractRoiMat r sourceMat =
     (let x0 = \<lfloor>rect_x r\<rfloor>; y0 = \<lfloor>rect_y r\<rfloor>;
          w0 = \<lfloor>width r\<rfloor>; h0 = \<lfloor>height r\<rfloor>;
          w1 = (if x0 < 0 then w0 + x0 else w0); x1 = (if x0 < 0 then 0 else x0);
          h1 = (if y0 < 0 then h0 + y0 else h0); y1 = (if y0 < 0 then 0 else y0);
          w2 = (if x1 + w1 > cols sourceMat then cols sourceMat - x1 else w1);
          h2 = (if y1 + h1 > rows sourceMat then rows sourceMat - y1 else h1)
      in if w2 \<le> 1 \<or> h2 \<le> 1 then None
         else Some (roi_clone sourceMat x1 y1 w2 h2))"

text \<open>
  The zone moved by the tracking offset:
  \<open>{ ...rect, x: rect.x + offset.x, y: rect.y + offset.y }\<close>.
\<close>

definition adjustedRect :: "Rect \<Rightarrow> Point \<Rightarrow> Rect" where
  "adjustedRect r off = r\<lparr>rect_x := rect_x r + pt_x off, rect_y := rect_y r + pt_y off\<rparr>"

text \<open>
  The body of \<open>calculateChangeScore\<close> runs inside \<open>try\<close>; the one call that can
  throw on matrices the function built itself is \<open>absdiff\<close>, and \<open>catch\<close> returns 0.
\<close>

definition calculateChangeScore :: "Blur \<Rightarrow> Mat \<Rightarrow> Mat option \<Rightarrow> Rect \<Rightarrow> Point \<Rightarrow> real" where
  "calculateChangeScore g currentFrameGray refMat r off =
     (case refMat of
        None \<Rightarrow> 0
      | Some rm \<Rightarrow>
          if isDeleted rm then 0
          else
            (case extractRoiMat (adjustedRect r off) currentFrameGray of
               None \<Rightarrow> 0
             | Some roi \<Rightarrow>
                 (let blurred = GaussianBlur g roi BLUR_SIZE in
                  case absdiff blurred rm of
                    None \<Rightarrow> 0
                  | Some diff \<Rightarrow>
                      (let thresholded = threshold diff DIFF_THRESHOLD 255;
                           nonZero = countNonZero thresholded;
                           totalPixels = width r * height r
                       in if totalPixels > 0 then real nonZero / totalPixels else 0))))"

subsection \<open>The motion classifier (\<open>onPoseResults\<close>)\<close>

definition NOSE :: nat where "NOSE = 0"
definition LEFT_WRIST :: nat where "LEFT_WRIST = 15"
definition RIGHT_WRIST :: nat where "RIGHT_WRIST = 16"

record Landmark =
  lm_x :: real
  lm_y :: real
  visibility :: real

record LastPos =
  lx :: real
  ly :: real
  rx :: real
  ry :: real

record AIState =
  currentAction :: AIActionType
  confidence :: real
  landmarks :: "Landmark list"
  leftHandVel :: real
  rightHandVel :: real
  lastPos :: "LastPos option"

text \<open>\<open>Math.hypot\<close> of two arguments.\<close>

definition hypot :: "real \<Rightarrow> real \<Rightarrow> real" where
  "hypot a b = sqrt (a * a + b * b)"

text \<open>
  How a call ends: it returns, or a property of \<open>undefined\<close> is read and a
  \<open>TypeError\<close> leaves the function.  The state comes back in both cases, since the
  cells are mutated in place.
\<close>

datatype Completion = Returned | Thrown

text \<open>
  \<open>results.poseLandmarks\<close> is \<open>None\<close> when the result carries no landmarks.
  An array shorter than 17 has no entry for a wrist, and the first read of
  \<open>leftWrist.x\<close> throws after \<open>landmarks\<close> was stored.
\<close>

definition onPoseResults :: "Landmark list option \<Rightarrow> AIState \<Rightarrow> Completion \<times> AIState" where
  "onPoseResults poseLandmarks st =
     (case poseLandmarks of
        None \<Rightarrow> (Returned, st)
      | Some lm \<Rightarrow>
          (let st1 = st\<lparr>landmarks := lm\<rparr> in
           if length lm \<le> RIGHT_WRIST then (Thrown, st1)
           else
             (let leftWrist = lm ! LEFT_WRIST;
                  rightWrist = lm ! RIGHT_WRIST;
                  lVel = (case lastPos st1 of
                            None \<Rightarrow> 0
                          | Some lp \<Rightarrow> hypot (lm_x leftWrist - lx lp) (lm_y leftWrist - ly lp));
                  rVel = (case lastPos st1 of
                            None \<Rightarrow> 0
                          | Some lp \<Rightarrow> hypot (lm_x rightWrist - rx lp) (lm_y rightWrist - ry lp));
                  st2 = st1\<lparr>lastPos := Some \<lparr>lx = lm_x leftWrist, ly = lm_y leftWrist,
                                               rx = lm_x rightWrist, ry = lm_y rightWrist\<rparr>\<rparr>;
                  st3 = st2\<lparr>leftHandVel := (leftHandVel st2 * 0.7) + (lVel * 0.3)\<rparr>;
                  st4 = st3\<lparr>rightHandVel := (rightHandVel st3 * 0.7) + (rVel * 0.3)\<rparr>;
                  avgVel = (leftHandVel st4 + rightHandVel st4) / 2;
                  moveThreshold = 0.005;
                  reachThreshold = 0.02;
                  nose = lm ! NOSE;
                  leftDist = hypot (lm_x leftWrist - lm_x nose) (lm_y leftWrist - lm_y nose);
                  rightDist = hypot (lm_x rightWrist - lm_x nose) (lm_y rightWrist - lm_y nose);
                  avgDist = (leftDist + rightDist) / 2;
                  action = (if avgVel < moveThreshold then IDLE_ACTION
                            else if avgDist > 0.4 \<and> avgVel > reachThreshold then TRANSPORT
                            else OPERATION)
              in (Returned, st4\<lparr>currentAction := action,
                                 confidence := min 1.0 (avgVel * 50)\<rparr>))))"

subsection \<open>The analyzer session\<close>

datatype Mode = setup_mode | running_mode

datatype SetupSubMode = start_roi | end_roi | anchor | none

record RefImages =
  img_start :: "string option"
  img_end :: "string option"
  img_anchor :: "string option"

record SignalState =
  raw :: real
  smooth :: real
  prevSmooth :: real

text \<open>
  The prop \<open>triggerSteps\<close>, the React state and the refs of the component that the
  engine and the mouse handlers read or write.
\<close>

record Analyzer =
  triggerSteps :: "TriggerStep list"
  isCvReady :: bool
  mode :: Mode
  setupSubMode :: SetupSubMode
  refImages :: RefImages
  drawingRect :: "Rect option"
  dragStart :: "Point option"
  draggingStepId :: "string option"
  dragOffset :: Point
  startRefMat :: "Mat option"
  anchorMat :: "Mat option"
  anchorRect :: "Rect option"
  trackingOffset :: Point
  isTrackingLost :: bool
  signalState :: SignalState
  logic :: Logic
  lastProcessTime :: real
  aiState :: AIState

subsection \<open>The anchor tracker (\<open>trackAnchor\<close>)\<close>

text \<open>
  The outcome of \<open>matchTemplate\<close> followed by \<open>minMaxLoc\<close> on the search window:
  the best correlation and where it is.  The matching itself is OpenCV's and is a
  parameter: given the frame, the search window and the template it yields the result, or
  \<open>None\<close> when one of the OpenCV calls throws (the \<open>catch\<close> of \<open>trackAnchor\<close>
  then leaves every cell as it was).
\<close>

record MinMax =
  maxVal :: real
  maxLoc :: Point

type_synonym Matcher = "Mat \<Rightarrow> Rect \<Rightarrow> Mat \<Rightarrow> MinMax option"

definition searchRect :: "Rect \<Rightarrow> Point \<Rightarrow> Mat \<Rightarrow> Rect" where
  "searchRect ar off fullFrameMat =
     (let margin = 50;
          lastX = rect_x ar + pt_x off;
          lastY = rect_y ar + pt_y off;
          searchX = max 0 (lastX - margin);
          searchY = max 0 (lastY - margin);
          searchW = min (real_of_int (cols fullFrameMat) - searchX) (width ar + (margin * 2));
          searchH = min (real_of_int (rows fullFrameMat) - searchY) (height ar + (margin * 2))
      in \<lparr>rect_x = searchX, rect_y = searchY, width = searchW, height = searchH\<rparr>)"

definition trackAnchor :: "Matcher \<Rightarrow> Mat \<Rightarrow> Analyzer \<Rightarrow> Analyzer" where
  "trackAnchor matcher fullFrameMat a =
     (case anchorMat a of
        None \<Rightarrow> a
      | Some tmpl \<Rightarrow>
          (case anchorRect a of
             None \<Rightarrow> a
           | Some ar \<Rightarrow>
               (let sr = searchRect ar (trackingOffset a) fullFrameMat in
                case matcher fullFrameMat sr tmpl of
                  None \<Rightarrow> a
                | Some minMax \<Rightarrow>
                    if maxVal minMax > 0.6 then
                      (let foundX = rect_x sr + pt_x (maxLoc minMax);
                           foundY = rect_y sr + pt_y (maxLoc minMax)
                       in a\<lparr>trackingOffset := \<lparr>pt_x = foundX - rect_x ar,
                                                pt_y = foundY - rect_y ar\<rparr>,
                            isTrackingLost := False\<rparr>)
                    else a\<lparr>isTrackingLost := True\<rparr>)))"

text \<open>The tracker called on one frame after the other.\<close>

fun trackAll :: "Matcher \<Rightarrow> Analyzer \<Rightarrow> Mat list \<Rightarrow> Analyzer" where
  "trackAll matcher a [] = a"
| "trackAll matcher a (fr # frs) = trackAll matcher (trackAnchor matcher fr a) frs"

subsection \<open>The main loop (\<open>processFrame\<close>)\<close>

text \<open>
  What one animation frame supplies: whether the video and canvas elements and the 2d
  context exist, \<open>performance.now()\<close>, \<open>video.currentTime\<close>, \<open>video.paused\<close>,
  \<open>Date.now()\<close>, and the frame read through the processing canvas as the RGBA matrix
  and its grayscale conversion (\<open>None\<close> when the processing context is missing or the
  read throws).
\<close>

record FrameIn =
  domReady :: bool
  perfNow :: real
  videoTime :: real
  paused :: bool
  wallClock :: int
  frame :: "(Mat \<times> Mat) option"

definition processFrame ::
    "Blur \<Rightarrow> Matcher \<Rightarrow> Props \<Rightarrow> Analyzer \<Rightarrow> FrameIn \<Rightarrow> Analyzer \<times> Cycle option" where
  "processFrame g matcher p a inp =
     (if \<not> domReady inp then (a, None)
      else if \<not> isCvReady a \<or> paused inp \<or> perfNow inp - lastProcessTime a < 50
      then (a, None)
      else
        (let a1 = a\<lparr>lastProcessTime := perfNow inp\<rparr> in
         case frame inp of
           None \<Rightarrow> (a1, None)
         | Some (srcMat, grayMat) \<Rightarrow>
             (let a2 = (if anchorMat a1 \<noteq> None then trackAnchor matcher srcMat a1 else a1) in
              if \<not> isTrackingLost a2 \<and> startRefMat a2 \<noteq> None \<and> triggerSteps a2 \<noteq> [] then
                (let rawScore = calculateChangeScore g grayMat (startRefMat a2)
                                  (rect (hd (triggerSteps a2))) (trackingOffset a2);
                     alpha = EMA_ALPHA;
                     smoothScore = (alpha * rawScore)
                                   + ((1 - alpha) * prevSmooth (signalState a2));
                     a3 = a2\<lparr>signalState := \<lparr>raw = rawScore, smooth = smoothScore,
                                               prevSmooth = smoothScore\<rparr>\<rparr>;
                     res = processLogic p
                             \<lparr>aiAction = currentAction (aiState a3), dateNow = wallClock inp\<rparr>
                             (logic a3) smoothScore (videoTime inp)
                 in (a3\<lparr>logic := fst res\<rparr>, snd res))
              else (a2, None))))"

subsection \<open>Mouse handlers (\<open>handleMouseDown\<close>, \<open>handleMouseMove\<close>) and \<open>geometry.ts\<close>\<close>

definition isPointInRect :: "Point \<Rightarrow> Rect \<Rightarrow> bool" where
  "isPointInRect point r \<longleftrightarrow>
     pt_x point \<ge> rect_x r \<and> pt_x point \<le> rect_x r + width r \<and>
     pt_y point \<ge> rect_y r \<and> pt_y point \<le> rect_y r + height r"

text \<open>
  The handlers take the click already mapped to video coordinates by
  \<open>mapScreenToVideo\<close>; \<open>None\<close> stands for a missing video element, on which both
  handlers return at once.
\<close>

definition handleMouseDown :: "Point option \<Rightarrow> Analyzer \<Rightarrow> Analyzer" where
  "handleMouseDown click a =
     (case click of
        None \<Rightarrow> a
      | Some pt \<Rightarrow>
          if setupSubMode a \<noteq> none then
            a\<lparr>dragStart := Some pt,
              drawingRect := Some \<lparr>rect_x = pt_x pt, rect_y = pt_y pt, width = 0, height = 0\<rparr>\<rparr>
          else if mode a = setup_mode then
            (case find (\<lambda>s. isPointInRect pt (rect s)) (triggerSteps a) of
               None \<Rightarrow> a
             | Some clickedStep \<Rightarrow>
                 a\<lparr>draggingStepId := Some (step_id clickedStep),
                   dragOffset := \<lparr>pt_x = pt_x pt - rect_x (rect clickedStep),
                                  pt_y = pt_y pt - rect_y (rect clickedStep)\<rparr>,
                   refImages := (refImages a)\<lparr>img_start := None\<rparr>\<rparr>)
          else a)"

text \<open>A string is truthy in JavaScript when it is not empty.\<close>

definition handleMouseMove :: "Point option \<Rightarrow> Analyzer \<Rightarrow> Analyzer" where
  "handleMouseMove click a =
     (case click of
        None \<Rightarrow> a
      | Some pt \<Rightarrow>
          (case draggingStepId a of
             Some sid \<Rightarrow>
               if sid \<noteq> [] then
                 a\<lparr>triggerSteps :=
                     map (\<lambda>s. if step_id s = sid
                               then s\<lparr>rect := (rect s)\<lparr>rect_x := pt_x pt - pt_x (dragOffset a),
                                                        rect_y := pt_y pt - pt_y (dragOffset a)\<rparr>\<rparr>
                               else s)
                         (triggerSteps a)\<rparr>
               else
                 (case dragStart a of
                    None \<Rightarrow> a
                  | Some ds \<Rightarrow>
                      a\<lparr>drawingRect := Some \<lparr>rect_x = min (pt_x pt) (pt_x ds),
                                              rect_y = min (pt_y pt) (pt_y ds),
                                              width = \<bar>pt_x pt - pt_x ds\<bar>,
                                              height = \<bar>pt_y pt - pt_y ds\<bar>\<rparr>\<rparr>)
           | None \<Rightarrow>
               (case dragStart a of
                  None \<Rightarrow> a
                | Some ds \<Rightarrow>
                    a\<lparr>drawingRect := Some \<lparr>rect_x = min (pt_x pt) (pt_x ds),
                                            rect_y = min (pt_y pt) (pt_y ds),
                                            width = \<bar>pt_x pt - pt_x ds\<bar>,
                                            height = \<bar>pt_y pt - pt_y ds\<bar>\<rparr>\<rparr>)))"

section \<open>Notions of the specification\<close>

text \<open>
  The definitions of this section are not translations of source functions.  They say,
  in the words of the specification, what the theorems below compare the code with.
\<close>

text \<open>
  The changed pixels of a zone: the positions inside the current (blurred) zone image
  whose intensity differs from the reference model by more than the cutoff.
\<close>

definition changedPixels :: "Mat \<Rightarrow> Mat \<Rightarrow> nat" where
  "changedPixels cur rm =
     card {(i, j). 0 \<le> i \<and> i < rows cur \<and> 0 \<le> j \<and> j < cols cur
                 \<and> int DIFF_THRESHOLD < \<bar>int (pixel cur i j) - int (pixel rm i j)\<bar>}"

text \<open>Euclidean distance of two points of the normalised image.\<close>

definition euclid :: "real \<times> real \<Rightarrow> real \<times> real \<Rightarrow> real" where
  "euclid a b = sqrt ((fst a - fst b)\<^sup>2 + (snd a - snd b)\<^sup>2)"

definition landmarkAt :: "Landmark list \<Rightarrow> nat \<Rightarrow> real \<times> real" where
  "landmarkAt lm k = (lm_x (lm ! k), lm_y (lm ! k))"

text \<open>
  The instant velocity of a hand: the displacement of its wrist since the previous pose
  result, and 0 on the first result, when there is no previous position.
\<close>

definition leftDisplacement :: "AIState \<Rightarrow> Landmark list \<Rightarrow> real" where
  "leftDisplacement st lm =
     (case lastPos st of
        None \<Rightarrow> 0
      | Some lp \<Rightarrow> euclid (landmarkAt lm LEFT_WRIST) (lx lp, ly lp))"

definition rightDisplacement :: "AIState \<Rightarrow> Landmark list \<Rightarrow> real" where
  "rightDisplacement st lm =
     (case lastPos st of
        None \<Rightarrow> 0
      | Some lp \<Rightarrow> euclid (landmarkAt lm RIGHT_WRIST) (rx lp, ry lp))"

definition avgVelocity :: "AIState \<Rightarrow> real" where
  "avgVelocity st = (leftHandVel st + rightHandVel st) / 2"

definition avgExtension :: "Landmark list \<Rightarrow> real" where
  "avgExtension lm =
     (euclid (landmarkAt lm LEFT_WRIST) (landmarkAt lm NOSE)
      + euclid (landmarkAt lm RIGHT_WRIST) (landmarkAt lm NOSE)) / 2"

text \<open>
  Two cycles in emission order are apart when the later one starts after the earlier one
  started, and more than the cooldown window after the earlier one ended.
\<close>

definition apart :: "Cycle \<Rightarrow> Cycle \<Rightarrow> bool" where
  "apart c c' \<longleftrightarrow> startTime c < startTime c' \<and> endTime c + 1.5 < startTime c'"

text \<open>
  \<open>startsAfter b st fs\<close>: the condition on the cells and on the frames still to come
  under which every cycle completed from now on starts after \<open>b\<close>.
\<close>

definition startsAfter :: "real \<Rightarrow> Logic \<Rightarrow> Tick list \<Rightarrow> bool" where
  "startsAfter b st fs =
     (case logicState st of
        IDLE \<Rightarrow> list_all (\<lambda>f. b < tick_time f) fs
      | TRIGGERED \<Rightarrow> b < cycleStartTime st \<and> list_all (\<lambda>f. b < tick_time f) fs
      | COOLDOWN \<Rightarrow> b \<le> cooldownTimer st)"

section \<open>Sample inputs\<close>

definition sampleProps :: Props where
  "sampleProps = \<lparr>taktTime = 2, sensitivity = 10\<rparr>"

definition idleEnv :: Ambient where
  "idleEnv = \<lparr>aiAction = IDLE_ACTION, dateNow = 1700000000000\<rparr>"

definition transportEnv :: Ambient where
  "transportEnv = \<lparr>aiAction = TRANSPORT, dateNow = 1700000005000\<rparr>"

definition sampleTick :: "real \<Rightarrow> real \<Rightarrow> Ambient \<Rightarrow> Tick" where
  "sampleTick s t env = \<lparr>tick_score = s, tick_time = t, tick_env = env\<rparr>"

text \<open>
  The score rises at 1.0 s and falls at 3.0 s (a cycle of 2 s), stays high through the
  cooldown, and a second cycle runs from 5.5 s to 8.0 s.
\<close>

definition sampleRun :: "Tick list" where
  "sampleRun =
     [sampleTick 0.5 1 idleEnv, sampleTick 0.5 2 idleEnv, sampleTick 0 3 idleEnv,
      sampleTick 0.5 4 idleEnv, sampleTick 0.5 5 idleEnv, sampleTick 0.5 5.5 idleEnv,
      sampleTick 0 8 transportEnv]"

definition firstCycle :: Cycle where
  "firstCycle = \<lparr>cycle_id = 1700000000000, startTime = 1, endTime = 3, duration = 2,
                  status = ok, aiLabel = Some Operation\<rparr>"

definition secondCycle :: Cycle where
  "secondCycle = \<lparr>cycle_id = 1700000005000, startTime = 5.5, endTime = 8, duration = 2.5,
                   status = over, aiLabel = Some Transport\<rparr>"

definition idleLogic :: Logic where
  "idleLogic = \<lparr>logicState = IDLE, cycleStartTime = 0, cooldownTimer = 0\<rparr>"

definition triggeredAt1 :: Logic where
  "triggeredAt1 = \<lparr>logicState = TRIGGERED, cycleStartTime = 1, cooldownTimer = 0\<rparr>"

definition coolingUntil4 :: Logic where
  "coolingUntil4 = \<lparr>logicState = COOLDOWN, cycleStartTime = 1, cooldownTimer = 4.5\<rparr>"

text \<open>
  A 200 by 200 frame whose first three rows are bright, a 2 by 2 reference model of a dark
  zone, and a zone of 2 by 2 pixels on rows 1 and 2.
\<close>

definition idBlur :: Blur where
  "idBlur ksize h w px = px"

definition sampleGray :: Mat where
  "sampleGray = \<lparr>rows = 200, cols = 200, pixel = (\<lambda>i j. if i < 3 then 255 else 10),
                  isDeleted = False\<rparr>"

definition sampleSrc :: Mat where
  "sampleSrc = \<lparr>rows = 200, cols = 200, pixel = (\<lambda>i j. if i < 3 then 255 else 10),
                 isDeleted = False\<rparr>"

definition sampleRef :: Mat where
  "sampleRef = \<lparr>rows = 2, cols = 2, pixel = (\<lambda>i j. 0), isDeleted = False\<rparr>"

definition deletedRef :: Mat where
  "deletedRef = \<lparr>rows = 2, cols = 2, pixel = (\<lambda>i j. 0), isDeleted = True\<rparr>"

definition sampleZone :: Rect where
  "sampleZone = \<lparr>rect_x = 0, rect_y = 1, width = 2, height = 2\<rparr>"

definition noOffset :: Point where
  "noOffset = \<lparr>pt_x = 0, pt_y = 0\<rparr>"

definition downOffset :: Point where
  "downOffset = \<lparr>pt_x = 0, pt_y = 1\<rparr>"

definition farOffset :: Point where
  "farOffset = \<lparr>pt_x = 300, pt_y = 0\<rparr>"

text \<open>
  A zone of 4 by 2 pixels near the right edge, an offset that pushes half of it out of
  the frame, a reference model of the size of the whole zone, and the part of the frame
  that is left of the zone after clamping.
\<close>

definition clipZone :: Rect where
  "clipZone = \<lparr>rect_x = 190, rect_y = 1, width = 4, height = 2\<rparr>"

definition clipOffset :: Point where
  "clipOffset = \<lparr>pt_x = 8, pt_y = 0\<rparr>"

definition wideRef :: Mat where
  "wideRef = \<lparr>rows = 2, cols = 4, pixel = (\<lambda>i j. 0), isDeleted = False\<rparr>"

definition clipRoi :: Mat where
  "clipRoi = \<lparr>rows = 2, cols = 2, pixel = (\<lambda>i j. if 1 + i < 3 then 255 else 10),
               isDeleted = False\<rparr>"

text \<open>
  An anchor of 10 by 10 pixels at (100, 100), and three matchers: one that finds the
  template where it was captured, one that finds it moved by (3, -2), and one whose best
  correlation is 0.3.
\<close>

definition sampleAnchor :: Rect where
  "sampleAnchor = \<lparr>rect_x = 100, rect_y = 100, width = 10, height = 10\<rparr>"

definition sampleTemplate :: Mat where
  "sampleTemplate = \<lparr>rows = 10, cols = 10, pixel = (\<lambda>i j. 10), isDeleted = False\<rparr>"

definition steadyMatch :: Matcher where
  "steadyMatch fr sr tmpl = Some \<lparr>maxVal = 0.9, maxLoc = \<lparr>pt_x = 50, pt_y = 50\<rparr>\<rparr>"

definition movedMatch :: Matcher where
  "movedMatch fr sr tmpl = Some \<lparr>maxVal = 0.9, maxLoc = \<lparr>pt_x = 53, pt_y = 48\<rparr>\<rparr>"

definition weakMatch :: Matcher where
  "weakMatch fr sr tmpl = Some \<lparr>maxVal = 0.3, maxLoc = \<lparr>pt_x = 7, pt_y = 9\<rparr>\<rparr>"

definition initAI :: AIState where
  "initAI = \<lparr>currentAction = IDLE_ACTION, confidence = 0, landmarks = [],
              leftHandVel = 0, rightHandVel = 0, lastPos = None\<rparr>"

definition sampleStep :: TriggerStep where
  "sampleStep = \<lparr>step_id = ''start'', name = ''Work Zone'', rect = sampleZone,
                  isActive = False, hitCount = 0\<rparr>"

text \<open>
  A session in setup mode with the zone drawn, its reference captured and the anchor
  captured; and the same session armed.
\<close>

definition setupAnalyzer :: Analyzer where
  "setupAnalyzer =
     \<lparr>triggerSteps = [sampleStep],
      isCvReady = True,
      mode = setup_mode,
      setupSubMode = none,
      refImages = \<lparr>img_start = Some ''thumb'', img_end = None, img_anchor = Some ''thumb''\<rparr>,
      drawingRect = None,
      dragStart = None,
      draggingStepId = None,
      dragOffset = \<lparr>pt_x = 0, pt_y = 0\<rparr>,
      startRefMat = Some sampleRef,
      anchorMat = Some sampleTemplate,
      anchorRect = Some sampleAnchor,
      trackingOffset = noOffset,
      isTrackingLost = False,
      signalState = \<lparr>raw = 0, smooth = 0, prevSmooth = 0\<rparr>,
      logic = initLogic,
      lastProcessTime = 0,
      aiState = initAI\<rparr>"

definition sampleAnalyzer :: Analyzer where
  "sampleAnalyzer = setupAnalyzer\<lparr>mode := running_mode\<rparr>"

text \<open>
  The setup session after the mouse went down on the zone at (1, 2) and moved to (11, 2).
\<close>

definition draggedAnalyzer :: Analyzer where
  "draggedAnalyzer =
     handleMouseMove (Some \<lparr>pt_x = 11, pt_y = 2\<rparr>)
       (handleMouseDown (Some \<lparr>pt_x = 1, pt_y = 2\<rparr>) setupAnalyzer)"

definition sampleFrameIn :: FrameIn where
  "sampleFrameIn = \<lparr>domReady = True, perfNow = 100, videoTime = 1, paused = False,
                     wallClock = 1700000000000, frame = Some (sampleSrc, sampleGray)\<rparr>"

text \<open>
  Pose results: seventeen landmarks with the nose at index 0 and the wrists at 15 and 16.
\<close>

definition padLandmark :: Landmark where
  "padLandmark = \<lparr>lm_x = 0, lm_y = 0, visibility = 0\<rparr>"

definition samplePose :: "real \<Rightarrow> real \<Rightarrow> Landmark list" where
  "samplePose nx ny =
     [\<lparr>lm_x = nx, lm_y = ny, visibility = 1\<rparr>,
      padLandmark, padLandmark, padLandmark, padLandmark, padLandmark, padLandmark,
      padLandmark, padLandmark, padLandmark, padLandmark, padLandmark, padLandmark,
      padLandmark, padLandmark,
      \<lparr>lm_x = 0.2, lm_y = 0.9, visibility = 1\<rparr>,
      \<lparr>lm_x = 0.8, lm_y = 0.9, visibility = 1\<rparr>]"

definition movingAI :: AIState where
  "movingAI = \<lparr>currentAction = IDLE_ACTION, confidence = 0, landmarks = [],
                leftHandVel = 0.1, rightHandVel = 0.1,
                lastPos = Some \<lparr>lx = 0.2, ly = 0.9, rx = 0.8, ry = 0.9\<rparr>\<rparr>"

text \<open>
  A second pose result, with both wrists moved by (0.03, 0.04), and the classifier after
  the first and after the second of two results in a row.
\<close>

definition movedPose :: "Landmark list" where
  "movedPose =
     [\<lparr>lm_x = 0.5, lm_y = 0.5, visibility = 1\<rparr>,
      padLandmark, padLandmark, padLandmark, padLandmark, padLandmark, padLandmark,
      padLandmark, padLandmark, padLandmark, padLandmark, padLandmark, padLandmark,
      padLandmark, padLandmark,
      \<lparr>lm_x = 0.23, lm_y = 0.94, visibility = 1\<rparr>,
      \<lparr>lm_x = 0.83, lm_y = 0.94, visibility = 1\<rparr>]"

definition firstAI :: AIState where
  "firstAI = snd (onPoseResults (Some (samplePose 0.5 0.5)) initAI)"

definition secondAI :: AIState where
  "secondAI = snd (onPoseResults (Some movedPose) firstAI)"

section \<open>Auxiliary facts\<close>

subsection \<open>The controller: what a completed cycle says about the call that made it\<close>

lemma tick_Some:
  assumes "tick p st f = (st', Some c)"
  shows "logicState st = TRIGGERED"
    and "tick_score f < lowThreshold p"
    and "1 < tick_time f - cycleStartTime st"
    and "st' = st\<lparr>logicState := COOLDOWN, cooldownTimer := tick_time f + 1.5\<rparr>"
    and "startTime c = cycleStartTime st"
    and "endTime c = tick_time f"
    and "duration c = tick_time f - cycleStartTime st"
    and "status c = (if taktTime p < duration c then over else ok)"
    and "aiLabel c = Some (if aiAction (tick_env f) = TRANSPORT then Transport else Operation)"
  using assms
  by (auto simp: tick_def processLogic_def MIN_CYCLE_TIME_def Let_def split: if_splits)

lemma emitted_all:
  assumes "\<And>st f st' c. tick p st f = (st', Some c) \<Longrightarrow> P c"
  shows "\<forall>c \<in> set (emitted p st fs). P c"
proof (induction fs arbitrary: st)
  case Nil
  show ?case by simp
next
  case (Cons f fs)
  obtain st' out where t: "tick p st f = (st', out)" by (cases "tick p st f")
  show ?case
  proof (cases out)
    case None
    with t Cons show ?thesis by simp
  next
    case (Some c)
    with t assms have "P c" by blast
    with t Some Cons show ?thesis by simp
  qed
qed

subsection \<open>The controller: lower bounds on the start of later cycles\<close>

lemma startsAfter_step:
  assumes "startsAfter b st (f # fs)" and "sorted (map tick_time (f # fs))"
    and "tick p st f = (st', out)"
  shows "startsAfter b st' fs"
proof (cases "logicState st")
  case IDLE
  with assms show ?thesis
    by (auto simp: startsAfter_def list_all_iff tick_def processLogic_def split: if_splits)
next
  case TRIGGERED
  with assms show ?thesis
    by (auto simp: startsAfter_def list_all_iff tick_def processLogic_def Let_def split: if_splits)
next
  case COOLDOWN
  with assms show ?thesis
    by (fastforce simp: startsAfter_def list_all_iff tick_def processLogic_def split: if_splits)
qed

lemma startsAfter_emit:
  assumes "startsAfter b st (f # fs)" and "tick p st f = (st', Some c)"
  shows "b < startTime c"
  using assms tick_Some(1,5)[OF assms(2)] by (simp add: startsAfter_def list_all_iff)

lemma emitted_startsAfter:
  "startsAfter b st fs \<Longrightarrow> sorted (map tick_time fs) \<Longrightarrow>
   \<forall>c \<in> set (emitted p st fs). b < startTime c"
proof (induction fs arbitrary: st)
  case Nil
  show ?case by simp
next
  case (Cons f fs)
  obtain st' out where t: "tick p st f = (st', out)" by (cases "tick p st f")
  have nxt: "startsAfter b st' fs"
    using startsAfter_step[OF Cons.prems(1) Cons.prems(2) t] .
  have srt: "sorted (map tick_time fs)" using Cons.prems(2) by simp
  have rest: "\<forall>c \<in> set (emitted p st' fs). b < startTime c"
    using Cons.IH[OF nxt srt] .
  show ?case
  proof (cases out)
    case None
    with t rest show ?thesis by simp
  next
    case (Some c)
    with t startsAfter_emit[OF Cons.prems(1)] have "b < startTime c" by blast
    with t Some rest show ?thesis by simp
  qed
qed

lemma emitted_apart:
  "sorted (map tick_time fs) \<Longrightarrow> sorted_wrt apart (emitted p st fs)"
proof (induction fs arbitrary: st)
  case Nil
  show ?case by simp
next
  case (Cons f fs)
  obtain st' out where t: "tick p st f = (st', out)" by (cases "tick p st f")
  have srt: "sorted (map tick_time fs)" using Cons.prems by simp
  have IH: "sorted_wrt apart (emitted p st' fs)" using Cons.IH[OF srt] .
  show ?case
  proof (cases out)
    case None
    with t IH show ?thesis by simp
  next
    case (Some c)
    note ts = tick_Some[OF t[unfolded Some]]
    have "startsAfter (endTime c + 1.5) st' fs"
      using ts by (simp add: startsAfter_def list_all_iff)
    from emitted_startsAfter[OF this srt]
    have later: "\<forall>c' \<in> set (emitted p st' fs). endTime c + 1.5 < startTime c'" .
    have "startTime c < endTime c" using ts by simp
    with later have "\<forall>c' \<in> set (emitted p st' fs). apart c c'"
      by (fastforce simp: apart_def)
    with t Some IH show ?thesis by simp
  qed
qed

subsection \<open>The scorer\<close>

lemma countNonZero_le: "countNonZero m \<le> nat (rows m) * nat (cols m)"
proof -
  have "countNonZero m \<le> length (List.product [0 .. rows m - 1] [0 .. cols m - 1])"
    unfolding countNonZero_def by (rule length_filter_le)
  also have "\<dots> = nat (rows m) * nat (cols m)" by simp
  finally show ?thesis .
qed

lemma countNonZero_card:
  "countNonZero m = card {(i, j). 0 \<le> i \<and> i < rows m \<and> 0 \<le> j \<and> j < cols m \<and> pixel m i j \<noteq> 0}"
proof -
  let ?xs = "List.product [0 .. rows m - 1] [0 .. cols m - 1]"
  let ?ys = "filter (\<lambda>(i, j). pixel m i j \<noteq> 0) ?xs"
  have "distinct ?xs" by (simp add: distinct_product)
  then have d: "distinct ?ys" by (rule distinct_filter)
  have s: "set ?ys
           = {(i, j). 0 \<le> i \<and> i < rows m \<and> 0 \<le> j \<and> j < cols m \<and> pixel m i j \<noteq> 0}"
    by auto
  have "countNonZero m = length ?ys" by (simp only: countNonZero_def)
  also have "\<dots> = card (set ?ys)" by (rule distinct_card[OF d, symmetric])
  finally show ?thesis by (simp only: s)
qed

lemma extractRoiMat_Some:
  assumes "extractRoiMat r src = Some roi"
  shows "1 < cols roi" and "1 < rows roi"
    and "real_of_int (cols roi) \<le> width r" and "real_of_int (rows roi) \<le> height r"
proof -
  define x0 y0 w0 h0 where "x0 = \<lfloor>rect_x r\<rfloor>" and "y0 = \<lfloor>rect_y r\<rfloor>"
    and "w0 = \<lfloor>width r\<rfloor>" and "h0 = \<lfloor>height r\<rfloor>"
  have "extractRoiMat r src =
     (let w1 = (if x0 < 0 then w0 + x0 else w0); x1 = (if x0 < 0 then 0 else x0);
          h1 = (if y0 < 0 then h0 + y0 else h0); y1 = (if y0 < 0 then 0 else y0);
          w2 = (if x1 + w1 > cols src then cols src - x1 else w1);
          h2 = (if y1 + h1 > rows src then rows src - y1 else h1)
      in if w2 \<le> 1 \<or> h2 \<le> 1 then None
         else Some (roi_clone src x1 y1 w2 h2))"
    unfolding extractRoiMat_def x0_def y0_def w0_def h0_def by (simp only: Let_def)
  with assms have "1 < cols roi \<and> 1 < rows roi \<and> cols roi \<le> w0 \<and> rows roi \<le> h0"
    by (auto simp: roi_clone_def Let_def split: if_splits)
  then show "1 < cols roi" "1 < rows roi"
    "real_of_int (cols roi) \<le> width r" "real_of_int (rows roi) \<le> height r"
    unfolding w0_def h0_def by linarith+
qed

lemma pipeline_count:
  assumes "absdiff b rm = Some d"
  shows "countNonZero (threshold d DIFF_THRESHOLD 255) = changedPixels b rm"
proof -
  from assms have sz: "rows d = rows b" "cols d = cols b"
    and px: "\<And>i j. pixel d i j = (if pixel rm i j \<le> pixel b i j
               then pixel b i j - pixel rm i j else pixel rm i j - pixel b i j)"
    by (auto simp: absdiff_def split: if_splits)
  have "{(i, j). 0 \<le> i \<and> i < rows (threshold d DIFF_THRESHOLD 255) \<and> 0 \<le> j
                \<and> j < cols (threshold d DIFF_THRESHOLD 255)
                \<and> pixel (threshold d DIFF_THRESHOLD 255) i j \<noteq> 0}
      = {(i, j). 0 \<le> i \<and> i < rows b \<and> 0 \<le> j \<and> j < cols b
                 \<and> int DIFF_THRESHOLD < \<bar>int (pixel b i j) - int (pixel rm i j)\<bar>}"
    by (auto simp: threshold_def sz px)
  then show ?thesis by (simp add: countNonZero_card changedPixels_def)
qed

lemma changedPixels_count:
  "changedPixels cur rm =
     countNonZero \<lparr>rows = rows cur, cols = cols cur,
                   pixel = (\<lambda>i j. if int DIFF_THRESHOLD < \<bar>int (pixel cur i j) - int (pixel rm i j)\<bar>
                                   then 255 else 0),
                   isDeleted = False\<rparr>"
proof -
  have "{(i, j). 0 \<le> i \<and> i < rows cur \<and> 0 \<le> j \<and> j < cols cur
                 \<and> int DIFF_THRESHOLD < \<bar>int (pixel cur i j) - int (pixel rm i j)\<bar>}
      = {(i, j). 0 \<le> i \<and> i < rows cur \<and> 0 \<le> j \<and> j < cols cur
                 \<and> (if int DIFF_THRESHOLD < \<bar>int (pixel cur i j) - int (pixel rm i j)\<bar>
                     then 255 else (0::nat)) \<noteq> 0}"
    by auto
  then show ?thesis by (simp add: changedPixels_def countNonZero_card)
qed

lemma score_fraction:
  assumes "1 < c" and "1 < r" and "real_of_int c \<le> w" and "real_of_int r \<le> h"
    and "n \<le> nat r * nat c"
  shows "0 \<le> real n / (w * h)" and "real n / (w * h) \<le> 1"
proof -
  have pos: "0 < w" "0 < h" using assms by linarith+
  then show "0 \<le> real n / (w * h)" by simp
  have "real n \<le> real (nat r * nat c)" using assms(5) by linarith
  also have "\<dots> = real_of_int r * real_of_int c" using assms(1,2) by simp
  also have "\<dots> \<le> h * w"
    using assms pos by (intro mult_mono) auto
  finally show "real n / (w * h) \<le> 1" using pos by (simp add: mult.commute)
qed

lemma calculateChangeScore_cases:
  "calculateChangeScore g gray refMat r off =
     (case refMat of None \<Rightarrow> 0
      | Some rm \<Rightarrow> if isDeleted rm then 0 else
         (case extractRoiMat (adjustedRect r off) gray of None \<Rightarrow> 0
          | Some roi \<Rightarrow>
             (case absdiff (GaussianBlur g roi BLUR_SIZE) rm of None \<Rightarrow> 0
              | Some d \<Rightarrow> if 0 < width r * height r
                    then real (countNonZero (threshold d DIFF_THRESHOLD 255)) / (width r * height r)
                    else 0)))"
  by (simp add: calculateChangeScore_def Let_def split: option.splits)

lemma score_bounds:
  "0 \<le> calculateChangeScore g gray refMat r off \<and> calculateChangeScore g gray refMat r off \<le> 1"
proof (cases refMat)
  case None
  then show ?thesis by (simp add: calculateChangeScore_cases)
next
  case (Some rm)
  show ?thesis
  proof (cases "extractRoiMat (adjustedRect r off) gray")
    case None
    with Some show ?thesis by (simp add: calculateChangeScore_cases)
  next
    case (Some roi)
    note roi = this
    show ?thesis
    proof (cases "absdiff (GaussianBlur g roi BLUR_SIZE) rm")
      case None
      with \<open>refMat = Some rm\<close> roi show ?thesis by (simp add: calculateChangeScore_cases)
    next
      case (Some d)
      let ?n = "countNonZero (threshold d DIFF_THRESHOLD 255)"
      have dims: "rows d = rows roi" "cols d = cols roi"
        using Some by (auto simp: absdiff_def GaussianBlur_def split: if_splits)
      have "?n \<le> nat (rows (threshold d DIFF_THRESHOLD 255)) * nat (cols (threshold d DIFF_THRESHOLD 255))"
        by (rule countNonZero_le)
      then have n: "?n \<le> nat (rows roi) * nat (cols roi)"
        by (simp add: threshold_def dims)
      have wh: "width (adjustedRect r off) = width r" "height (adjustedRect r off) = height r"
        by (simp_all add: adjustedRect_def)
      note e = extractRoiMat_Some[OF roi, unfolded wh]
      have "0 \<le> real ?n / (width r * height r)" "real ?n / (width r * height r) \<le> 1"
        using score_fraction[OF e(1) e(2) e(3) e(4) n] by simp_all
      with \<open>refMat = Some rm\<close> roi Some show ?thesis
        by (simp add: calculateChangeScore_cases)
    qed
  qed
qed

subsection \<open>The tracker and the mouse handlers\<close>

lemma trackAnchor_keeps:
  "signalState (trackAnchor matcher fr a) = signalState a"
  "logic (trackAnchor matcher fr a) = logic a"
  "startRefMat (trackAnchor matcher fr a) = startRefMat a"
  "triggerSteps (trackAnchor matcher fr a) = triggerSteps a"
  "anchorMat (trackAnchor matcher fr a) = anchorMat a"
  "anchorRect (trackAnchor matcher fr a) = anchorRect a"
  by (simp_all add: trackAnchor_def Let_def split: option.splits)

lemma trackAnchor_match:
  assumes "anchorMat a = Some tmpl" and "anchorRect a = Some ar"
    and "matcher fr (searchRect ar (trackingOffset a) fr) tmpl = Some mm"
  shows "trackAnchor matcher fr a =
     (if maxVal mm > 0.6
      then a\<lparr>trackingOffset :=
               \<lparr>pt_x = rect_x (searchRect ar (trackingOffset a) fr) + pt_x (maxLoc mm) - rect_x ar,
                pt_y = rect_y (searchRect ar (trackingOffset a) fr) + pt_y (maxLoc mm) - rect_y ar\<rparr>,
             isTrackingLost := False\<rparr>
      else a\<lparr>isTrackingLost := True\<rparr>)"
  using assms by (simp add: trackAnchor_def Let_def)

lemma trackAll_weak:
  assumes "anchorMat a = Some tmpl" and "anchorRect a = Some ar"
    and "\<forall>fr \<in> set frs. \<exists>mm. matcher fr (searchRect ar (trackingOffset a) fr) tmpl = Some mm
                                \<and> maxVal mm \<le> 0.6"
  shows "trackingOffset (trackAll matcher a frs) = trackingOffset a
       \<and> (frs \<noteq> [] \<longrightarrow> isTrackingLost (trackAll matcher a frs))
       \<and> (frs = [] \<longrightarrow> isTrackingLost (trackAll matcher a frs) = isTrackingLost a)"
  using assms
proof (induction frs arbitrary: a)
  case Nil
  show ?case by simp
next
  case (Cons fr frs)
  from Cons.prems(3) obtain mm
    where mm: "matcher fr (searchRect ar (trackingOffset a) fr) tmpl = Some mm" "maxVal mm \<le> 0.6"
    by auto
  let ?a = "trackAnchor matcher fr a"
  have step: "?a = a\<lparr>isTrackingLost := True\<rparr>"
    using trackAnchor_match[where matcher = matcher and fr = fr, OF Cons.prems(1,2) mm(1)] mm(2) by simp
  have "trackingOffset (trackAll matcher ?a frs) = trackingOffset ?a
       \<and> (frs \<noteq> [] \<longrightarrow> isTrackingLost (trackAll matcher ?a frs))
       \<and> (frs = [] \<longrightarrow> isTrackingLost (trackAll matcher ?a frs) = isTrackingLost ?a)"
    using Cons.prems by (intro Cons.IH) (simp_all add: step)
  then show ?case by (cases frs) (simp_all add: step)
qed

lemma handleMouseDown_model: "startRefMat (handleMouseDown click a) = startRefMat a"
  by (simp add: handleMouseDown_def split: option.splits)

lemma handleMouseMove_model: "startRefMat (handleMouseMove click a) = startRefMat a"
  by (simp add: handleMouseMove_def split: option.splits)

subsection \<open>The classifier\<close>

lemma hypot_euclid: "hypot (a - b) (c - d) = euclid (a, c) (b, d)"
  by (simp add: hypot_def euclid_def power2_eq_square)

lemma onPoseResults_landmarks:
  assumes "RIGHT_WRIST < length lm"
  shows "fst (onPoseResults (Some lm) st) = Returned"
    and "lastPos (snd (onPoseResults (Some lm) st))
           = Some \<lparr>lx = lm_x (lm ! LEFT_WRIST), ly = lm_y (lm ! LEFT_WRIST),
                   rx = lm_x (lm ! RIGHT_WRIST), ry = lm_y (lm ! RIGHT_WRIST)\<rparr>"
    and "landmarks (snd (onPoseResults (Some lm) st)) = lm"
    and "leftHandVel (snd (onPoseResults (Some lm) st))
           = 0.7 * leftHandVel st + 0.3 * leftDisplacement st lm"
    and "rightHandVel (snd (onPoseResults (Some lm) st))
           = 0.7 * rightHandVel st + 0.3 * rightDisplacement st lm"
  using assms
  unfolding leftDisplacement_def rightDisplacement_def landmarkAt_def
  by (auto simp: onPoseResults_def Let_def hypot_euclid split: option.splits)

lemma onPoseResults_action:
  assumes "RIGHT_WRIST < length lm"
  shows "currentAction (snd (onPoseResults (Some lm) st))
           = (if avgVelocity (snd (onPoseResults (Some lm) st)) < 0.005 then IDLE_ACTION
              else if avgExtension lm > 0.4 \<and> avgVelocity (snd (onPoseResults (Some lm) st)) > 0.02
              then TRANSPORT else OPERATION)"
  using assms
  unfolding avgVelocity_def avgExtension_def landmarkAt_def
  by (simp add: onPoseResults_def Let_def hypot_euclid split: option.splits)

lemma displacement_since:
  assumes "RIGHT_WRIST < length lm0"
  shows "leftDisplacement (snd (onPoseResults (Some lm0) st0)) lm
           = euclid (landmarkAt lm LEFT_WRIST) (landmarkAt lm0 LEFT_WRIST)"
    and "rightDisplacement (snd (onPoseResults (Some lm0) st0)) lm
           = euclid (landmarkAt lm RIGHT_WRIST) (landmarkAt lm0 RIGHT_WRIST)"
  by (simp_all add: leftDisplacement_def rightDisplacement_def
        onPoseResults_landmarks(2)[OF assms] landmarkAt_def)

subsection \<open>The samples\<close>

lemma sample_thresholds:
  "highThreshold sampleProps = 0.15" "lowThreshold sampleProps = 0.09"
  by (simp_all add: highThreshold_def lowThreshold_def sampleProps_def)

lemma sample_takt: "taktTime sampleProps = 2"
  by (simp add: sampleProps_def)

lemma sampleRun_emitted: "emitted sampleProps initLogic sampleRun = [firstCycle, secondCycle]"
  by (simp add: sampleRun_def sampleTick_def initLogic_def tick_def processLogic_def
        sample_thresholds sample_takt MIN_CYCLE_TIME_def idleEnv_def transportEnv_def
        firstCycle_def secondCycle_def Let_def)

lemma sampleRun_sorted: "sorted (map tick_time sampleRun)"
  by (simp add: sampleRun_def sampleTick_def)

lemma sample_trigger_step:
  "processLogic sampleProps idleEnv triggeredAt1 0 3
     = (triggeredAt1\<lparr>logicState := COOLDOWN, cooldownTimer := 4.5\<rparr>, Some firstCycle)"
  by (simp add: processLogic_def triggeredAt1_def sample_thresholds sample_takt MIN_CYCLE_TIME_def
        idleEnv_def firstCycle_def Let_def)

lemma upto_0_1: "[0 .. (1::int)] = [0, 1]"
  by (simp add: upto.simps)

lemma sample_roi:
  "extractRoiMat (adjustedRect sampleZone noOffset) sampleGray
     = Some \<lparr>rows = 2, cols = 2, pixel = (\<lambda>i j. if 1 + i < 3 then 255 else 10),
             isDeleted = False\<rparr>"
  by (simp add: extractRoiMat_def adjustedRect_def sampleZone_def noOffset_def sampleGray_def
        roi_clone_def Let_def)

lemma sample_roi_down:
  "extractRoiMat (adjustedRect sampleZone downOffset) sampleGray
     = Some \<lparr>rows = 2, cols = 2, pixel = (\<lambda>i j. if 2 + i < 3 then 255 else 10),
             isDeleted = False\<rparr>"
  by (simp add: extractRoiMat_def adjustedRect_def sampleZone_def downOffset_def sampleGray_def
        roi_clone_def Let_def)

lemma sample_roi_far:
  "extractRoiMat (adjustedRect sampleZone farOffset) sampleGray = None"
  by (simp add: extractRoiMat_def adjustedRect_def sampleZone_def farOffset_def sampleGray_def
        roi_clone_def Let_def)

lemma sample_area: "width sampleZone * height sampleZone = 4"
  by (simp add: sampleZone_def)

lemma sample_score: "calculateChangeScore idBlur sampleGray (Some sampleRef) sampleZone noOffset = 1"
  unfolding calculateChangeScore_cases sample_roi sample_area
  by (simp add: sampleRef_def GaussianBlur_def idBlur_def absdiff_def
        threshold_def countNonZero_def DIFF_THRESHOLD_def BLUR_SIZE_def upto_0_1)

lemma sample_score_down:
  "calculateChangeScore idBlur sampleGray (Some sampleRef) sampleZone downOffset = 1 / 2"
  unfolding calculateChangeScore_cases sample_roi_down sample_area
  by (simp add: sampleRef_def GaussianBlur_def idBlur_def absdiff_def
        threshold_def countNonZero_def DIFF_THRESHOLD_def BLUR_SIZE_def upto_0_1)

lemma clip_roi:
  "extractRoiMat (adjustedRect clipZone clipOffset) sampleGray = Some clipRoi"
  by (simp add: extractRoiMat_def adjustedRect_def clipZone_def clipOffset_def sampleGray_def
        roi_clone_def clipRoi_def Let_def)

lemma clip_area: "width clipZone * height clipZone = 8"
  by (simp add: clipZone_def)

lemma clip_changed: "changedPixels (GaussianBlur idBlur clipRoi BLUR_SIZE) wideRef = 4"
  unfolding changedPixels_count
  by (simp add: GaussianBlur_def idBlur_def clipRoi_def wideRef_def countNonZero_def
        DIFF_THRESHOLD_def upto_0_1)

lemma clip_score:
  "calculateChangeScore idBlur sampleGray (Some wideRef) clipZone clipOffset = 0"
  unfolding calculateChangeScore_cases clip_roi
  by (simp add: wideRef_def clipRoi_def GaussianBlur_def absdiff_def)

lemma sample_searchRect:
  "searchRect sampleAnchor noOffset sampleSrc
     = \<lparr>rect_x = 50, rect_y = 50, width = 110, height = 110\<rparr>"
  by (simp add: searchRect_def sampleAnchor_def noOffset_def sampleSrc_def Let_def)

lemma sample_anchor_xy: "rect_x sampleAnchor = 100" "rect_y sampleAnchor = 100"
  by (simp_all add: sampleAnchor_def)

lemma sample_cells:
  "anchorMat sampleAnalyzer = Some sampleTemplate"
  "anchorRect sampleAnalyzer = Some sampleAnchor"
  "trackingOffset sampleAnalyzer = noOffset"
  "startRefMat sampleAnalyzer = Some sampleRef"
  "triggerSteps sampleAnalyzer = [sampleStep]"
  "isCvReady sampleAnalyzer"
  "lastProcessTime sampleAnalyzer = 0"
  "signalState sampleAnalyzer = \<lparr>raw = 0, smooth = 0, prevSmooth = 0\<rparr>"
  "logic sampleAnalyzer = initLogic"
  "aiState sampleAnalyzer = initAI"
  by (simp_all add: sampleAnalyzer_def setupAnalyzer_def)

lemma sample_track_weak:
  "trackAnchor weakMatch sampleSrc sampleAnalyzer = sampleAnalyzer\<lparr>isTrackingLost := True\<rparr>"
  by (simp add: trackAnchor_def sample_cells weakMatch_def Let_def)

lemma sample_track_moved:
  "trackAnchor movedMatch sampleSrc sampleAnalyzer
     = sampleAnalyzer\<lparr>trackingOffset := \<lparr>pt_x = 3, pt_y = -2\<rparr>, isTrackingLost := False\<rparr>"
  by (simp add: trackAnchor_def sample_cells movedMatch_def sample_searchRect sample_anchor_xy
        Let_def)

lemma sample_track_steady:
  "trackAnchor steadyMatch sampleSrc sampleAnalyzer
     = sampleAnalyzer\<lparr>trackingOffset := noOffset, isTrackingLost := False\<rparr>"
  by (simp add: trackAnchor_def sample_cells steadyMatch_def sample_searchRect sample_anchor_xy
        Let_def)
     (simp add: noOffset_def)

lemma sample_frame_weak:
  "processFrame idBlur weakMatch sampleProps sampleAnalyzer sampleFrameIn
     = (sampleAnalyzer\<lparr>lastProcessTime := 100, isTrackingLost := True\<rparr>, None)"
  by (simp add: processFrame_def sampleFrameIn_def sample_cells trackAnchor_def weakMatch_def
        Let_def)

lemma dragged_value:
  "draggedAnalyzer = setupAnalyzer
     \<lparr>triggerSteps := [sampleStep\<lparr>rect := \<lparr>rect_x = 10, rect_y = 1, width = 2, height = 2\<rparr>\<rparr>],
      draggingStepId := Some ''start'',
      dragOffset := \<lparr>pt_x = 1, pt_y = 1\<rparr>,
      refImages := \<lparr>img_start = None, img_end = None, img_anchor = Some ''thumb''\<rparr>\<rparr>"
  by (simp add: draggedAnalyzer_def handleMouseMove_def handleMouseDown_def setupAnalyzer_def
        isPointInRect_def sampleStep_def sampleZone_def)

lemma dragged_roi:
  "extractRoiMat (adjustedRect \<lparr>rect_x = 10, rect_y = 1, width = 2, height = 2\<rparr> noOffset) sampleGray
     = Some \<lparr>rows = 2, cols = 2, pixel = (\<lambda>i j. if 1 + i < 3 then 255 else 10),
             isDeleted = False\<rparr>"
  by (simp add: extractRoiMat_def adjustedRect_def noOffset_def sampleGray_def
        roi_clone_def Let_def)

lemma dragged_score:
  "calculateChangeScore idBlur sampleGray (Some sampleRef)
     \<lparr>rect_x = 10, rect_y = 1, width = 2, height = 2\<rparr> noOffset = 1"
  unfolding calculateChangeScore_cases dragged_roi
  by (simp add: sampleRef_def GaussianBlur_def idBlur_def absdiff_def
        threshold_def countNonZero_def DIFF_THRESHOLD_def BLUR_SIZE_def upto_0_1)

lemma sqrt_quarter: "sqrt (1 / 4) = 1 / 2"
  by (rule real_sqrt_unique) (simp_all add: power2_eq_square)

lemma sqrt_9_100: "sqrt (9 / 100) = 3 / 10"
  by (rule real_sqrt_unique) (simp_all add: power2_eq_square)

lemma euclid_same: "euclid a a = 0"
  by (simp add: euclid_def)

lemma samplePose_at:
  "landmarkAt (samplePose nx ny) NOSE = (nx, ny)"
  "landmarkAt (samplePose nx ny) LEFT_WRIST = (0.2, 0.9)"
  "landmarkAt (samplePose nx ny) RIGHT_WRIST = (0.8, 0.9)"
  "RIGHT_WRIST < length (samplePose nx ny)"
  by (simp_all add: landmarkAt_def samplePose_def NOSE_def LEFT_WRIST_def RIGHT_WRIST_def)

lemma sample_extension:
  "avgExtension (samplePose 0.5 0.5) = 0.5" "avgExtension (samplePose 0.5 0.9) = 0.3"
  by (simp_all add: avgExtension_def samplePose_at euclid_def power2_eq_square
        sqrt_quarter sqrt_9_100)

lemma sample_displacement:
  "leftDisplacement movingAI (samplePose nx ny) = 0"
  "rightDisplacement movingAI (samplePose nx ny) = 0"
  "leftDisplacement initAI (samplePose nx ny) = 0"
  "rightDisplacement initAI (samplePose nx ny) = 0"
  by (simp_all add: leftDisplacement_def rightDisplacement_def movingAI_def initAI_def
        samplePose_at euclid_same)

lemma sqrt_400: "sqrt (1 / 400) = 1 / 20"
  by (rule real_sqrt_unique) (simp_all add: power2_eq_square)

lemma movedPose_at:
  "landmarkAt movedPose LEFT_WRIST = (0.23, 0.94)"
  "landmarkAt movedPose RIGHT_WRIST = (0.83, 0.94)"
  "RIGHT_WRIST < length movedPose"
  by (simp_all add: landmarkAt_def movedPose_def LEFT_WRIST_def RIGHT_WRIST_def)

lemma moved_distance:
  "euclid (landmarkAt movedPose LEFT_WRIST) (landmarkAt (samplePose nx ny) LEFT_WRIST) = 0.05"
  "euclid (landmarkAt movedPose RIGHT_WRIST) (landmarkAt (samplePose nx ny) RIGHT_WRIST) = 0.05"
  by (simp_all add: movedPose_at samplePose_at euclid_def power2_eq_square sqrt_400)

lemma firstAI_vel: "leftHandVel firstAI = 0" "rightHandVel firstAI = 0"
  unfolding firstAI_def
  by (simp_all add: onPoseResults_landmarks(4,5)[OF samplePose_at(4)] sample_displacement)
     (simp_all add: initAI_def)

lemma secondAI_vel: "leftHandVel secondAI = 0.015" "rightHandVel secondAI = 0.015"
  unfolding secondAI_def
  by (simp_all add: onPoseResults_landmarks(4,5)[OF movedPose_at(3)] firstAI_vel)
     (simp_all add: firstAI_def displacement_since[OF samplePose_at(4)] moved_distance)

section \<open>Thresholds\<close>

text \<open>
  C3.  For every sensitivity value the thresholds are
  \<open>highThreshold = max(0.01, 0.35 - sensitivity * 0.02)\<close> and
  \<open>lowThreshold = 0.6 * highThreshold\<close>, and so
  \<open>0 < lowThreshold < highThreshold\<close> always holds.
\<close>

theorem thresholds_hysteresis:
  "highThreshold p = max 0.01 (0.35 - sensitivity p * 0.02)
   \<and> lowThreshold p = 0.6 * highThreshold p
   \<and> 0 < lowThreshold p \<and> lowThreshold p < highThreshold p"
proof -
  have pos: "0 < highThreshold p"
    unfolding highThreshold_def by (simp add: max_def)
  have "highThreshold p * 0.6 < highThreshold p"
    using pos by simp
  with pos show ?thesis
    by (simp add: lowThreshold_def highThreshold_def)
qed

section \<open>The controller\<close>

subsection \<open>The state machine\<close>

text \<open>
  C1, as amended.  The controller is a machine of three states with four transitions.
  In \<open>IDLE\<close>, a frame with \<open>s > highThreshold\<close> moves it to
  \<open>TRIGGERED\<close> and records \<open>cycleStartTime = t\<close>.  In \<open>TRIGGERED\<close>, a
  frame with \<open>s < lowThreshold\<close> and \<open>t - cycleStartTime > 1\<close> emits one cycle
  with \<open>startTime = cycleStartTime\<close>, \<open>endTime = t\<close> and
  \<open>duration = t - cycleStartTime\<close>, moves to \<open>COOLDOWN\<close> and sets
  \<open>cooldownTimer = t + 1.5\<close>; a frame with \<open>s < lowThreshold\<close> and
  \<open>t - cycleStartTime \<le> 1\<close> returns to \<open>IDLE\<close> without a cycle.  In
  \<open>COOLDOWN\<close>, a frame with \<open>t > cooldownTimer\<close> returns to \<open>IDLE\<close>
  without a cycle.  No other frame changes a cell or emits a cycle.
\<close>

theorem processLogic_machine:
  "(logicState st = IDLE \<and> highThreshold p < s \<longrightarrow>
      processLogic p amb st s t = (st\<lparr>logicState := TRIGGERED, cycleStartTime := t\<rparr>, None))
   \<and> (logicState st = TRIGGERED \<and> s < lowThreshold p \<and> 1 < t - cycleStartTime st \<longrightarrow>
      (\<exists>c. processLogic p amb st s t
              = (st\<lparr>logicState := COOLDOWN, cooldownTimer := t + 1.5\<rparr>, Some c)
           \<and> startTime c = cycleStartTime st \<and> endTime c = t
           \<and> duration c = t - cycleStartTime st))
   \<and> (logicState st = TRIGGERED \<and> s < lowThreshold p \<and> t - cycleStartTime st \<le> 1 \<longrightarrow>
      processLogic p amb st s t = (st\<lparr>logicState := IDLE\<rparr>, None))
   \<and> (logicState st = COOLDOWN \<and> cooldownTimer st < t \<longrightarrow>
      processLogic p amb st s t = (st\<lparr>logicState := IDLE\<rparr>, None))
   \<and> (\<not> (logicState st = IDLE \<and> highThreshold p < s)
      \<and> \<not> (logicState st = TRIGGERED \<and> s < lowThreshold p)
      \<and> \<not> (logicState st = COOLDOWN \<and> cooldownTimer st < t) \<longrightarrow>
      processLogic p amb st s t = (st, None))"
  by (cases "logicState st") (auto simp: processLogic_def MIN_CYCLE_TIME_def Let_def)

text \<open>
  Each of the four transitions and three frames that change nothing, on the samples.
\<close>

theorem processLogic_machine_witness:
  "processLogic sampleProps idleEnv idleLogic 0.5 1
       = (idleLogic\<lparr>logicState := TRIGGERED, cycleStartTime := 1\<rparr>, None)
   \<and> processLogic sampleProps idleEnv triggeredAt1 0 3
       = (triggeredAt1\<lparr>logicState := COOLDOWN, cooldownTimer := 4.5\<rparr>, Some firstCycle)
   \<and> processLogic sampleProps idleEnv triggeredAt1 0 1.5
       = (triggeredAt1\<lparr>logicState := IDLE\<rparr>, None)
   \<and> processLogic sampleProps idleEnv coolingUntil4 0.5 5
       = (coolingUntil4\<lparr>logicState := IDLE\<rparr>, None)
   \<and> processLogic sampleProps idleEnv coolingUntil4 0.5 4 = (coolingUntil4, None)
   \<and> processLogic sampleProps idleEnv triggeredAt1 0.5 2 = (triggeredAt1, None)
   \<and> processLogic sampleProps idleEnv idleLogic 0.1 1 = (idleLogic, None)"
proof -
  from processLogic_machine[where p = sampleProps and amb = idleEnv and st = idleLogic
        and s = "0.5" and t = 1]
    processLogic_machine[where p = sampleProps and amb = idleEnv and st = triggeredAt1
        and s = 0 and t = "1.5"]
    processLogic_machine[where p = sampleProps and amb = idleEnv and st = coolingUntil4
        and s = "0.5" and t = 5]
    processLogic_machine[where p = sampleProps and amb = idleEnv and st = coolingUntil4
        and s = "0.5" and t = 4]
    processLogic_machine[where p = sampleProps and amb = idleEnv and st = triggeredAt1
        and s = "0.5" and t = 2]
    processLogic_machine[where p = sampleProps and amb = idleEnv and st = idleLogic
        and s = "0.1" and t = 1]
  show ?thesis using sample_trigger_step
    by (simp add: sample_thresholds idleLogic_def triggeredAt1_def coolingUntil4_def)
qed

text \<open>
  The claim as first stated has three transitions and says that no other frame changes
  the state.  The frame below meets the condition of none of the three, and the state
  changes from \<open>TRIGGERED\<close> to \<open>IDLE\<close>.
\<close>

theorem processLogic_false_trigger_counterexample:
  "\<not> (logicState triggeredAt1 = IDLE \<and> highThreshold sampleProps < 0)
   \<and> \<not> (logicState triggeredAt1 = TRIGGERED \<and> 0 < lowThreshold sampleProps
         \<and> 1 < 1.5 - cycleStartTime triggeredAt1)
   \<and> \<not> (logicState triggeredAt1 = COOLDOWN \<and> cooldownTimer triggeredAt1 < 1.5)
   \<and> logicState (fst (processLogic sampleProps idleEnv triggeredAt1 0 1.5))
       \<noteq> logicState triggeredAt1"
  by (simp add: processLogic_def triggeredAt1_def sample_thresholds MIN_CYCLE_TIME_def)

subsection \<open>Minimum duration\<close>

text \<open>
  C2.  For every sequence of frames, no emitted cycle has a duration below
  \<open>MIN_CYCLE_TIME\<close> (1.0 s); and a \<open>TRIGGERED\<close> episode whose score falls below
  \<open>lowThreshold\<close> after at most 1.0 s returns the controller to \<open>IDLE\<close> and emits
  no cycle.
\<close>

theorem min_duration:
  "(\<forall>c \<in> set (emitted p st fs). \<not> duration c < 1)
   \<and> (logicState st = TRIGGERED \<and> s < lowThreshold p \<and> t - cycleStartTime st \<le> 1
        \<longrightarrow> processLogic p amb st s t = (st\<lparr>logicState := IDLE\<rparr>, None))"
proof
  have "\<forall>c \<in> set (emitted p st fs). 1 < duration c"
    by (rule emitted_all) (simp add: tick_Some)
  then show "\<forall>c \<in> set (emitted p st fs). \<not> duration c < 1" by fastforce
next
  show "logicState st = TRIGGERED \<and> s < lowThreshold p \<and> t - cycleStartTime st \<le> 1
        \<longrightarrow> processLogic p amb st s t = (st\<lparr>logicState := IDLE\<rparr>, None)"
    by (simp add: processLogic_def MIN_CYCLE_TIME_def)
qed

theorem min_duration_witness:
  "emitted sampleProps initLogic sampleRun = [firstCycle, secondCycle]
   \<and> \<not> duration firstCycle < 1
   \<and> \<not> duration secondCycle < 1
   \<and> logicState triggeredAt1 = TRIGGERED
   \<and> 0 < lowThreshold sampleProps
   \<and> 1.5 - cycleStartTime triggeredAt1 \<le> 1
   \<and> processLogic sampleProps idleEnv triggeredAt1 0 1.5
       = (triggeredAt1\<lparr>logicState := IDLE\<rparr>, None)"
proof -
  note run = min_duration[where p = sampleProps and st = initLogic and fs = sampleRun]
  note one = min_duration[where p = sampleProps and st = triggeredAt1 and s = 0 and t = "1.5"
      and amb = idleEnv]
  from run have "\<not> duration firstCycle < 1" and "\<not> duration secondCycle < 1"
    by (simp_all add: sampleRun_emitted)
  moreover have pre: "logicState triggeredAt1 = TRIGGERED" "0 < lowThreshold sampleProps"
    "1.5 - cycleStartTime triggeredAt1 \<le> 1"
    by (simp_all add: triggeredAt1_def sample_thresholds)
  moreover from one pre have "processLogic sampleProps idleEnv triggeredAt1 0 1.5
       = (triggeredAt1\<lparr>logicState := IDLE\<rparr>, None)"
    by blast
  ultimately show ?thesis using sampleRun_emitted by blast
qed

subsection \<open>Order of the cycles\<close>

text \<open>
  C7.  When the timestamps of the frames are non-decreasing, consecutive cycles have
  strictly increasing \<open>startTime\<close>, and the later cycle starts more than 1.5 s after
  the earlier one ended.
\<close>

theorem cycles_ordered:
  assumes "sorted (map tick_time fs)" and "Suc i < length (emitted p st fs)"
  shows "startTime (emitted p st fs ! i) < startTime (emitted p st fs ! Suc i)
       \<and> endTime (emitted p st fs ! i) + 1.5 < startTime (emitted p st fs ! Suc i)"
proof -
  have "apart (emitted p st fs ! i) (emitted p st fs ! Suc i)"
    using emitted_apart[OF assms(1)] assms(2) by (simp add: sorted_wrt_iff_nth_less)
  then show ?thesis by (simp add: apart_def)
qed

theorem cycles_ordered_witness:
  "sorted (map tick_time sampleRun)
   \<and> Suc 0 < length (emitted sampleProps initLogic sampleRun)
   \<and> startTime (emitted sampleProps initLogic sampleRun ! 0)
       < startTime (emitted sampleProps initLogic sampleRun ! Suc 0)
   \<and> endTime (emitted sampleProps initLogic sampleRun ! 0) + 1.5
       < startTime (emitted sampleProps initLogic sampleRun ! Suc 0)"
proof -
  have len: "Suc 0 < length (emitted sampleProps initLogic sampleRun)"
    by (simp add: sampleRun_emitted)
  from cycles_ordered[OF sampleRun_sorted len] sampleRun_sorted len show ?thesis by simp
qed

subsection \<open>Status and label of a cycle\<close>

text \<open>
  C10.  Every emitted cycle has status \<open>ok\<close> or \<open>over\<close>, and \<open>over\<close>
  exactly when its duration exceeds \<open>taktTime\<close>; its label is \<open>Operation\<close> or
  \<open>Transport\<close>; and a classification of \<open>IDLE\<close> at the moment the cycle
  completes is recorded as \<open>Operation\<close>.
\<close>

theorem cycle_fields:
  "(\<forall>c \<in> set (emitted p st fs).
       (status c = ok \<or> status c = over)
     \<and> (status c = over \<longleftrightarrow> taktTime p < duration c)
     \<and> (aiLabel c = Some Operation \<or> aiLabel c = Some Transport))
   \<and> (\<forall>st' c. processLogic p amb st s t = (st', Some c) \<and> aiAction amb = IDLE_ACTION
        \<longrightarrow> aiLabel c = Some Operation)"
proof
  show "\<forall>c \<in> set (emitted p st fs).
       (status c = ok \<or> status c = over)
     \<and> (status c = over \<longleftrightarrow> taktTime p < duration c)
     \<and> (aiLabel c = Some Operation \<or> aiLabel c = Some Transport)"
    by (rule emitted_all) (simp add: tick_Some)
next
  show "\<forall>st' c. processLogic p amb st s t = (st', Some c) \<and> aiAction amb = IDLE_ACTION
        \<longrightarrow> aiLabel c = Some Operation"
    by (auto simp: processLogic_def Let_def split: if_splits)
qed

theorem cycle_fields_witness:
  "emitted sampleProps initLogic sampleRun = [firstCycle, secondCycle]
   \<and> status firstCycle = ok \<and> \<not> taktTime sampleProps < duration firstCycle
   \<and> aiLabel firstCycle = Some Operation
   \<and> status secondCycle = over \<and> taktTime sampleProps < duration secondCycle
   \<and> aiLabel secondCycle = Some Transport
   \<and> processLogic sampleProps idleEnv triggeredAt1 0 3
       = (triggeredAt1\<lparr>logicState := COOLDOWN, cooldownTimer := 4.5\<rparr>, Some firstCycle)
   \<and> aiAction idleEnv = IDLE_ACTION"
proof -
  have idle: "aiAction idleEnv = IDLE_ACTION" by (simp add: idleEnv_def)
  note F = cycle_fields[where p = sampleProps and st = initLogic and fs = sampleRun]
  note G = cycle_fields[where p = sampleProps and st = triggeredAt1 and amb = idleEnv
      and s = 0 and t = 3]
  from F have all: "\<forall>c \<in> set [firstCycle, secondCycle].
         (status c = ok \<or> status c = over)
       \<and> (status c = over \<longleftrightarrow> taktTime sampleProps < duration c)
       \<and> (aiLabel c = Some Operation \<or> aiLabel c = Some Transport)"
    unfolding sampleRun_emitted by blast
  have s1: "status firstCycle = ok" and s2: "status secondCycle = over"
    by (simp_all add: firstCycle_def secondCycle_def)
  from all s1 have d1: "\<not> taktTime sampleProps < duration firstCycle" by simp
  from all s2 have d2: "taktTime sampleProps < duration secondCycle" by simp
  from G sample_trigger_step idle have l1: "aiLabel firstCycle = Some Operation" by blast
  have l2: "aiLabel secondCycle = Some Transport" by (simp add: secondCycle_def)
  from sampleRun_emitted s1 s2 d1 d2 l1 l2 sample_trigger_step idle show ?thesis by blast
qed

section \<open>The change scorer\<close>

text \<open>
  C6, as amended.  For every gray frame, reference model, zone and offset the scorer
  returns a value in \<open>[0, 1]\<close> and does not throw.  It returns 0 when the reference
  model is missing or deleted, when the extraction of the offset-adjusted zone fails, when
  the zone has area 0, and when the model has not the size of the extracted zone (the zone
  was clamped by the frame, \<open>absdiff\<close> throws and \<open>catch\<close> returns 0).  In
  every other case it returns the number of changed pixels divided by the pixel count
  \<open>width * height\<close> of the zone, which is positive there.
\<close>

theorem calculateChangeScore_contract:
  "0 \<le> calculateChangeScore g gray refMat r off
   \<and> calculateChangeScore g gray refMat r off \<le> 1
   \<and> (refMat = None \<longrightarrow> calculateChangeScore g gray refMat r off = 0)
   \<and> (\<forall>rm. refMat = Some rm \<and> isDeleted rm \<longrightarrow> calculateChangeScore g gray refMat r off = 0)
   \<and> (extractRoiMat (adjustedRect r off) gray = None
        \<longrightarrow> calculateChangeScore g gray refMat r off = 0)
   \<and> (width r * height r = 0 \<longrightarrow> calculateChangeScore g gray refMat r off = 0)
   \<and> (\<forall>rm roi. refMat = Some rm \<and> extractRoiMat (adjustedRect r off) gray = Some roi
          \<and> (rows rm \<noteq> rows roi \<or> cols rm \<noteq> cols roi)
        \<longrightarrow> calculateChangeScore g gray refMat r off = 0)
   \<and> (\<forall>rm roi. refMat = Some rm \<and> \<not> isDeleted rm
          \<and> extractRoiMat (adjustedRect r off) gray = Some roi
          \<and> rows rm = rows roi \<and> cols rm = cols roi
        \<longrightarrow> 0 < width r * height r
          \<and> calculateChangeScore g gray refMat r off
            = real (changedPixels (GaussianBlur g roi BLUR_SIZE) rm) / (width r * height r))"
proof -
  have a: "refMat = None \<longrightarrow> calculateChangeScore g gray refMat r off = 0"
    by (simp add: calculateChangeScore_cases)
  have b: "\<forall>rm. refMat = Some rm \<and> isDeleted rm \<longrightarrow> calculateChangeScore g gray refMat r off = 0"
    by (simp add: calculateChangeScore_cases)
  have c: "extractRoiMat (adjustedRect r off) gray = None
        \<longrightarrow> calculateChangeScore g gray refMat r off = 0"
    by (simp add: calculateChangeScore_cases split: option.splits)
  have d: "width r * height r = 0 \<longrightarrow> calculateChangeScore g gray refMat r off = 0"
    by (simp add: calculateChangeScore_cases split: option.splits)
  have m: "\<forall>rm roi. refMat = Some rm \<and> extractRoiMat (adjustedRect r off) gray = Some roi
          \<and> (rows rm \<noteq> rows roi \<or> cols rm \<noteq> cols roi)
        \<longrightarrow> calculateChangeScore g gray refMat r off = 0"
    by (auto simp: calculateChangeScore_cases absdiff_def GaussianBlur_def)
  have e: "\<forall>rm roi. refMat = Some rm \<and> \<not> isDeleted rm
          \<and> extractRoiMat (adjustedRect r off) gray = Some roi
          \<and> rows rm = rows roi \<and> cols rm = cols roi
        \<longrightarrow> 0 < width r * height r
          \<and> calculateChangeScore g gray refMat r off
            = real (changedPixels (GaussianBlur g roi BLUR_SIZE) rm) / (width r * height r)"
  proof (intro allI impI)
    fix rm roi
    assume h: "refMat = Some rm \<and> \<not> isDeleted rm
          \<and> extractRoiMat (adjustedRect r off) gray = Some roi
          \<and> rows rm = rows roi \<and> cols rm = cols roi"
    then obtain df where df: "absdiff (GaussianBlur g roi BLUR_SIZE) rm = Some df"
      by (simp add: absdiff_def GaussianBlur_def)
    from h have roi: "extractRoiMat (adjustedRect r off) gray = Some roi" by simp
    have wh: "width (adjustedRect r off) = width r" "height (adjustedRect r off) = height r"
      by (simp_all add: adjustedRect_def)
    note x = extractRoiMat_Some[OF roi, unfolded wh]
    have "0 < width r" and "0 < height r" using x by linarith+
    then have pos: "0 < width r * height r" by simp
    from h df pipeline_count[OF df] pos
    show "0 < width r * height r
          \<and> calculateChangeScore g gray refMat r off
            = real (changedPixels (GaussianBlur g roi BLUR_SIZE) rm) / (width r * height r)"
      by (simp add: calculateChangeScore_cases)
  qed
  from score_bounds[of g gray refMat r off] a b c d m e show ?thesis by blast
qed

theorem calculateChangeScore_contract_witness:
  "calculateChangeScore idBlur sampleGray None sampleZone noOffset = 0
   \<and> isDeleted deletedRef
   \<and> calculateChangeScore idBlur sampleGray (Some deletedRef) sampleZone noOffset = 0
   \<and> extractRoiMat (adjustedRect sampleZone farOffset) sampleGray = None
   \<and> calculateChangeScore idBlur sampleGray (Some sampleRef) sampleZone farOffset = 0
   \<and> extractRoiMat (adjustedRect clipZone clipOffset) sampleGray = Some clipRoi
   \<and> cols wideRef \<noteq> cols clipRoi
   \<and> calculateChangeScore idBlur sampleGray (Some wideRef) clipZone clipOffset = 0
   \<and> \<not> isDeleted sampleRef
   \<and> extractRoiMat (adjustedRect sampleZone downOffset) sampleGray \<noteq> None
   \<and> calculateChangeScore idBlur sampleGray (Some sampleRef) sampleZone downOffset = 1 / 2
   \<and> (0::real) \<le> 1 / 2 \<and> (1::real) / 2 \<le> 1"
proof -
  have del: "isDeleted deletedRef" by (simp add: deletedRef_def)
  have live: "\<not> isDeleted sampleRef" by (simp add: sampleRef_def)
  have wide: "cols wideRef \<noteq> cols clipRoi" by (simp add: wideRef_def clipRoi_def)
  have s1: "calculateChangeScore idBlur sampleGray None sampleZone noOffset = 0"
    using calculateChangeScore_contract[of idBlur sampleGray None sampleZone noOffset]
    by blast
  have s2: "calculateChangeScore idBlur sampleGray (Some deletedRef) sampleZone noOffset = 0"
    using calculateChangeScore_contract[of idBlur sampleGray "Some deletedRef" sampleZone noOffset]
      del by blast
  have s3: "calculateChangeScore idBlur sampleGray (Some sampleRef) sampleZone farOffset = 0"
    using calculateChangeScore_contract[of idBlur sampleGray "Some sampleRef" sampleZone farOffset]
      sample_roi_far by blast
  have s4: "0 \<le> calculateChangeScore idBlur sampleGray (Some sampleRef) sampleZone downOffset
          \<and> calculateChangeScore idBlur sampleGray (Some sampleRef) sampleZone downOffset \<le> 1"
    using calculateChangeScore_contract[of idBlur sampleGray "Some sampleRef" sampleZone downOffset]
    by blast
  have s5: "calculateChangeScore idBlur sampleGray (Some wideRef) clipZone clipOffset = 0"
    using calculateChangeScore_contract[of idBlur sampleGray "Some wideRef" clipZone clipOffset]
      clip_roi wide by blast
  show ?thesis
    using s1 s2 s3 s4 s5 del live wide sample_roi_far clip_roi
    by (simp add: sample_roi_down sample_score_down)
qed

text \<open>
  The claim as first stated gives the fraction of changed pixels whenever the model is
  live and the extraction succeeds.  Below, the zone (190, 1, 4, 2) is moved by the offset
  (8, 0) and clamped to 2 by 2 pixels; the model is live, the extraction succeeds, 4 pixels
  of the extracted zone differ from the model and the zone has 8 pixels, and the score is 0,
  not 4 / 8.
\<close>

theorem clipped_zone_counterexample:
  "\<not> isDeleted wideRef
   \<and> extractRoiMat (adjustedRect clipZone clipOffset) sampleGray = Some clipRoi
   \<and> width clipZone * height clipZone = 8
   \<and> changedPixels (GaussianBlur idBlur clipRoi BLUR_SIZE) wideRef = 4
   \<and> calculateChangeScore idBlur sampleGray (Some wideRef) clipZone clipOffset = 0"
  by (simp add: clip_roi clip_area clip_changed clip_score) (simp add: wideRef_def)

section \<open>The anchor tracker\<close>

text \<open>
  C5.  With an anchor captured: on a frame whose best correlation does not exceed 0.6
  the tracker leaves the offset as it was and sets the lost flag; on a frame whose best
  correlation exceeds 0.6 it sets the offset to the found position (origin of the search
  window plus location of the best match) minus the position of the anchor, and clears the
  flag; after any number of consecutive frames of the first kind the offset is still the
  last accepted one and the flag is set.
\<close>

theorem trackAnchor_fallback:
  assumes "anchorMat a = Some tmpl" and "anchorRect a = Some ar"
  shows "(\<forall>mm. matcher fr (searchRect ar (trackingOffset a) fr) tmpl = Some mm \<and> maxVal mm \<le> 0.6
            \<longrightarrow> trackingOffset (trackAnchor matcher fr a) = trackingOffset a
              \<and> isTrackingLost (trackAnchor matcher fr a))
       \<and> (\<forall>mm. matcher fr (searchRect ar (trackingOffset a) fr) tmpl = Some mm \<and> 0.6 < maxVal mm
            \<longrightarrow> trackingOffset (trackAnchor matcher fr a)
                = \<lparr>pt_x = rect_x (searchRect ar (trackingOffset a) fr) + pt_x (maxLoc mm)
                          - rect_x ar,
                   pt_y = rect_y (searchRect ar (trackingOffset a) fr) + pt_y (maxLoc mm)
                          - rect_y ar\<rparr>
              \<and> \<not> isTrackingLost (trackAnchor matcher fr a))
       \<and> (frs \<noteq> [] \<and> (\<forall>f \<in> set frs. \<exists>mm. matcher f (searchRect ar (trackingOffset a) f) tmpl = Some mm
                                            \<and> maxVal mm \<le> 0.6)
            \<longrightarrow> trackingOffset (trackAll matcher a frs) = trackingOffset a
              \<and> isTrackingLost (trackAll matcher a frs))"
proof (intro conjI allI impI)
  fix mm
  assume "matcher fr (searchRect ar (trackingOffset a) fr) tmpl = Some mm \<and> maxVal mm \<le> 0.6"
  then have m: "matcher fr (searchRect ar (trackingOffset a) fr) tmpl = Some mm"
    and w: "maxVal mm \<le> 0.6" by simp_all
  from trackAnchor_match[where matcher = matcher and fr = fr, OF assms m] w
  show "trackingOffset (trackAnchor matcher fr a) = trackingOffset a"
    and "isTrackingLost (trackAnchor matcher fr a)" by simp_all
next
  fix mm
  assume "matcher fr (searchRect ar (trackingOffset a) fr) tmpl = Some mm \<and> 0.6 < maxVal mm"
  then have m: "matcher fr (searchRect ar (trackingOffset a) fr) tmpl = Some mm"
    and s: "0.6 < maxVal mm" by simp_all
  from trackAnchor_match[where matcher = matcher and fr = fr, OF assms m] s
  show "trackingOffset (trackAnchor matcher fr a)
                = \<lparr>pt_x = rect_x (searchRect ar (trackingOffset a) fr) + pt_x (maxLoc mm)
                          - rect_x ar,
                   pt_y = rect_y (searchRect ar (trackingOffset a) fr) + pt_y (maxLoc mm)
                          - rect_y ar\<rparr>"
    and "\<not> isTrackingLost (trackAnchor matcher fr a)" by simp_all
next
  assume h: "frs \<noteq> [] \<and> (\<forall>f \<in> set frs. \<exists>mm. matcher f (searchRect ar (trackingOffset a) f) tmpl = Some mm
                                            \<and> maxVal mm \<le> 0.6)"
  then have "\<forall>f \<in> set frs. \<exists>mm. matcher f (searchRect ar (trackingOffset a) f) tmpl = Some mm
                                            \<and> maxVal mm \<le> 0.6" by simp
  from trackAll_weak[where matcher = matcher and frs = frs, OF assms this] h
  show "trackingOffset (trackAll matcher a frs) = trackingOffset a"
    and "isTrackingLost (trackAll matcher a frs)" by simp_all
qed

theorem trackAnchor_fallback_witness:
  "anchorMat sampleAnalyzer = Some sampleTemplate
   \<and> anchorRect sampleAnalyzer = Some sampleAnchor
   \<and> weakMatch sampleSrc (searchRect sampleAnchor (trackingOffset sampleAnalyzer) sampleSrc)
        sampleTemplate = Some \<lparr>maxVal = 0.3, maxLoc = \<lparr>pt_x = 7, pt_y = 9\<rparr>\<rparr>
   \<and> trackingOffset (trackAnchor weakMatch sampleSrc sampleAnalyzer) = noOffset
   \<and> isTrackingLost (trackAnchor weakMatch sampleSrc sampleAnalyzer)
   \<and> movedMatch sampleSrc (searchRect sampleAnchor (trackingOffset sampleAnalyzer) sampleSrc)
        sampleTemplate = Some \<lparr>maxVal = 0.9, maxLoc = \<lparr>pt_x = 53, pt_y = 48\<rparr>\<rparr>
   \<and> trackingOffset (trackAnchor movedMatch sampleSrc sampleAnalyzer) = \<lparr>pt_x = 3, pt_y = -2\<rparr>
   \<and> \<not> isTrackingLost (trackAnchor movedMatch sampleSrc sampleAnalyzer)
   \<and> trackingOffset (trackAll weakMatch sampleAnalyzer [sampleSrc, sampleSrc, sampleSrc]) = noOffset
   \<and> isTrackingLost (trackAll weakMatch sampleAnalyzer [sampleSrc, sampleSrc, sampleSrc])"
proof -
  note am = sample_cells(1) and ar = sample_cells(2)
  have w: "weakMatch sampleSrc (searchRect sampleAnchor (trackingOffset sampleAnalyzer) sampleSrc)
        sampleTemplate = Some \<lparr>maxVal = 0.3, maxLoc = \<lparr>pt_x = 7, pt_y = 9\<rparr>\<rparr>"
    by (simp add: weakMatch_def)
  have m: "movedMatch sampleSrc (searchRect sampleAnchor (trackingOffset sampleAnalyzer) sampleSrc)
        sampleTemplate = Some \<lparr>maxVal = 0.9, maxLoc = \<lparr>pt_x = 53, pt_y = 48\<rparr>\<rparr>"
    by (simp add: movedMatch_def)
  have all: "\<forall>f \<in> set [sampleSrc, sampleSrc, sampleSrc].
      \<exists>mm. weakMatch f (searchRect sampleAnchor (trackingOffset sampleAnalyzer) f) sampleTemplate
              = Some mm \<and> maxVal mm \<le> 0.6"
    by (simp add: weakMatch_def)
  have one: "trackingOffset (trackAnchor weakMatch sampleSrc sampleAnalyzer) = noOffset
      \<and> isTrackingLost (trackAnchor weakMatch sampleSrc sampleAnalyzer)"
    using trackAnchor_fallback[OF am ar, where matcher = weakMatch and fr = sampleSrc] w
    by (simp add: sample_cells)
  have two: "trackingOffset (trackAnchor movedMatch sampleSrc sampleAnalyzer) = \<lparr>pt_x = 3, pt_y = -2\<rparr>
      \<and> \<not> isTrackingLost (trackAnchor movedMatch sampleSrc sampleAnalyzer)"
    using trackAnchor_fallback[OF am ar, where matcher = movedMatch and fr = sampleSrc] m
    by (simp add: sample_cells sample_searchRect sample_anchor_xy)
  have three: "trackingOffset (trackAll weakMatch sampleAnalyzer [sampleSrc, sampleSrc, sampleSrc]) = noOffset
      \<and> isTrackingLost (trackAll weakMatch sampleAnalyzer [sampleSrc, sampleSrc, sampleSrc])"
    using trackAnchor_fallback[OF am ar, where matcher = weakMatch
        and frs = "[sampleSrc, sampleSrc, sampleSrc]"] all
    by (simp add: sample_cells)
  from am ar w m one two three show ?thesis by blast
qed

section \<open>The main loop while tracking is lost\<close>

text \<open>
  C4, as amended.  On every processed frame after whose tracking step the lost flag is
  set, the change scorer is not run and nothing is fed to the controller: the signal state
  and the cells of the controller stay as they were and no cycle is emitted.  A processed
  frame whose best template match does not exceed 0.6 is such a frame, and it leaves the
  offset as it was.  Cycle detection is paused while tracking is lost.
\<close>

theorem lost_frame_skips_detection:
  "(isTrackingLost (fst (processFrame g matcher p a inp))
      \<longrightarrow> signalState (fst (processFrame g matcher p a inp)) = signalState a
        \<and> logic (fst (processFrame g matcher p a inp)) = logic a
        \<and> snd (processFrame g matcher p a inp) = None)
   \<and> (domReady inp \<and> isCvReady a \<and> \<not> paused inp \<and> \<not> perfNow inp - lastProcessTime a < 50
       \<and> frame inp = Some (src, gray)
       \<and> anchorMat a = Some tmpl \<and> anchorRect a = Some ar
       \<and> matcher src (searchRect ar (trackingOffset a) src) tmpl = Some mm \<and> maxVal mm \<le> 0.6
      \<longrightarrow> isTrackingLost (fst (processFrame g matcher p a inp))
        \<and> trackingOffset (fst (processFrame g matcher p a inp)) = trackingOffset a)"
proof (intro conjI impI)
  assume lost: "isTrackingLost (fst (processFrame g matcher p a inp))"
  then show "signalState (fst (processFrame g matcher p a inp)) = signalState a"
    by (auto simp: processFrame_def Let_def trackAnchor_keeps
        split: if_splits option.splits prod.splits)
  from lost show "logic (fst (processFrame g matcher p a inp)) = logic a"
    by (auto simp: processFrame_def Let_def trackAnchor_keeps
        split: if_splits option.splits prod.splits)
  from lost show "snd (processFrame g matcher p a inp) = None"
    by (auto simp: processFrame_def Let_def trackAnchor_keeps
        split: if_splits option.splits prod.splits)
next
  assume h: "domReady inp \<and> isCvReady a \<and> \<not> paused inp \<and> \<not> perfNow inp - lastProcessTime a < 50
       \<and> frame inp = Some (src, gray)
       \<and> anchorMat a = Some tmpl \<and> anchorRect a = Some ar
       \<and> matcher src (searchRect ar (trackingOffset a) src) tmpl = Some mm \<and> maxVal mm \<le> 0.6"
  let ?a1 = "a\<lparr>lastProcessTime := perfNow inp\<rparr>"
  have t: "trackAnchor matcher src ?a1 = ?a1\<lparr>isTrackingLost := True\<rparr>"
    using trackAnchor_match[where matcher = matcher and fr = src and a = ?a1 and tmpl = tmpl
        and ar = ar and mm = mm] h by simp
  have "processFrame g matcher p a inp = (?a1\<lparr>isTrackingLost := True\<rparr>, None)"
    using h by (simp add: processFrame_def Let_def t)
  then show "isTrackingLost (fst (processFrame g matcher p a inp))"
    and "trackingOffset (fst (processFrame g matcher p a inp)) = trackingOffset a"
    by simp_all
qed

theorem lost_frame_skips_detection_witness:
  "domReady sampleFrameIn \<and> isCvReady sampleAnalyzer \<and> \<not> paused sampleFrameIn
   \<and> \<not> perfNow sampleFrameIn - lastProcessTime sampleAnalyzer < 50
   \<and> frame sampleFrameIn = Some (sampleSrc, sampleGray)
   \<and> anchorMat sampleAnalyzer = Some sampleTemplate
   \<and> anchorRect sampleAnalyzer = Some sampleAnchor
   \<and> weakMatch sampleSrc (searchRect sampleAnchor (trackingOffset sampleAnalyzer) sampleSrc)
        sampleTemplate = Some \<lparr>maxVal = 0.3, maxLoc = \<lparr>pt_x = 7, pt_y = 9\<rparr>\<rparr>
   \<and> isTrackingLost (fst (processFrame idBlur weakMatch sampleProps sampleAnalyzer sampleFrameIn))
   \<and> trackingOffset (fst (processFrame idBlur weakMatch sampleProps sampleAnalyzer sampleFrameIn))
       = trackingOffset sampleAnalyzer
   \<and> signalState (fst (processFrame idBlur weakMatch sampleProps sampleAnalyzer sampleFrameIn))
       = signalState sampleAnalyzer
   \<and> logic (fst (processFrame idBlur weakMatch sampleProps sampleAnalyzer sampleFrameIn))
       = logic sampleAnalyzer
   \<and> snd (processFrame idBlur weakMatch sampleProps sampleAnalyzer sampleFrameIn) = None"
proof -
  have pre: "domReady sampleFrameIn \<and> isCvReady sampleAnalyzer \<and> \<not> paused sampleFrameIn
     \<and> \<not> perfNow sampleFrameIn - lastProcessTime sampleAnalyzer < 50
     \<and> frame sampleFrameIn = Some (sampleSrc, sampleGray)
     \<and> anchorMat sampleAnalyzer = Some sampleTemplate
     \<and> anchorRect sampleAnalyzer = Some sampleAnchor
     \<and> weakMatch sampleSrc (searchRect sampleAnchor (trackingOffset sampleAnalyzer) sampleSrc)
          sampleTemplate = Some \<lparr>maxVal = 0.3, maxLoc = \<lparr>pt_x = 7, pt_y = 9\<rparr>\<rparr>
     \<and> maxVal \<lparr>maxVal = 0.3, maxLoc = \<lparr>pt_x = 7, pt_y = 9\<rparr>\<rparr> \<le> 0.6"
    by (simp add: sampleFrameIn_def sample_cells weakMatch_def)
  note L = lost_frame_skips_detection[where g = idBlur and matcher = weakMatch
      and p = sampleProps and a = sampleAnalyzer and inp = sampleFrameIn and src = sampleSrc
      and gray = sampleGray and tmpl = sampleTemplate and ar = sampleAnchor
      and mm = "\<lparr>maxVal = 0.3, maxLoc = \<lparr>pt_x = 7, pt_y = 9\<rparr>\<rparr>"]
  from L pre have lost:
    "isTrackingLost (fst (processFrame idBlur weakMatch sampleProps sampleAnalyzer sampleFrameIn))
     \<and> trackingOffset (fst (processFrame idBlur weakMatch sampleProps sampleAnalyzer sampleFrameIn))
         = trackingOffset sampleAnalyzer"
    by blast
  with L have "signalState (fst (processFrame idBlur weakMatch sampleProps sampleAnalyzer sampleFrameIn))
       = signalState sampleAnalyzer
   \<and> logic (fst (processFrame idBlur weakMatch sampleProps sampleAnalyzer sampleFrameIn))
       = logic sampleAnalyzer
   \<and> snd (processFrame idBlur weakMatch sampleProps sampleAnalyzer sampleFrameIn) = None"
    by blast
  with pre lost show ?thesis by blast
qed

text \<open>
  The claim as first stated says that on a lost frame the scorer still runs and its
  smoothed score still reaches the controller.  On the sample frame the match is weak and
  the flag is set; the scorer would return 1 for the zone at the last known offset, and the
  controller fed the smoothed score 0.2 would move to \<open>TRIGGERED\<close>; the raw score
  stays 0 and the controller stays \<open>IDLE\<close>.
\<close>

theorem lost_frame_counterexample:
  "isTrackingLost (fst (processFrame idBlur weakMatch sampleProps sampleAnalyzer sampleFrameIn))
   \<and> calculateChangeScore idBlur sampleGray (startRefMat sampleAnalyzer)
        (rect (hd (triggerSteps sampleAnalyzer))) (trackingOffset sampleAnalyzer) = 1
   \<and> raw (signalState
            (fst (processFrame idBlur weakMatch sampleProps sampleAnalyzer sampleFrameIn))) = 0
   \<and> logicState (fst (processLogic sampleProps idleEnv (logic sampleAnalyzer)
                         (EMA_ALPHA * 1 + (1 - EMA_ALPHA) * 0) 1)) = TRIGGERED
   \<and> logicState (logic
            (fst (processFrame idBlur weakMatch sampleProps sampleAnalyzer sampleFrameIn))) = IDLE"
  by (simp add: sample_frame_weak sample_cells sample_score sampleStep_def processLogic_def
        initLogic_def sample_thresholds EMA_ALPHA_def)

section \<open>Dragging a zone\<close>

text \<open>
  C8.  The claim is that starting to drag a zone clears its reference model, so that
  the scorer returns 0 until the reference is captured again.  On the sample session the
  zone is dragged from (0, 1) to (10, 1) in setup mode: the thumbnail
  \<open>refImages.start\<close> is cleared, the reference model \<open>startRefMat\<close> is still
  the one captured before, and the scorer called on the moved zone compares it with that
  model and returns 1.
\<close>

theorem zone_drag_keeps_reference_model:
  "mode draggedAnalyzer = setup_mode
   \<and> rect (hd (triggerSteps setupAnalyzer)) = \<lparr>rect_x = 0, rect_y = 1, width = 2, height = 2\<rparr>
   \<and> rect (hd (triggerSteps draggedAnalyzer)) = \<lparr>rect_x = 10, rect_y = 1, width = 2, height = 2\<rparr>
   \<and> img_start (refImages draggedAnalyzer) = None
   \<and> startRefMat draggedAnalyzer = Some sampleRef
   \<and> calculateChangeScore idBlur sampleGray (startRefMat draggedAnalyzer)
        (rect (hd (triggerSteps draggedAnalyzer))) (trackingOffset draggedAnalyzer) = 1"
proof -
  have cells: "mode draggedAnalyzer = setup_mode"
    "rect (hd (triggerSteps setupAnalyzer)) = \<lparr>rect_x = 0, rect_y = 1, width = 2, height = 2\<rparr>"
    "rect (hd (triggerSteps draggedAnalyzer)) = \<lparr>rect_x = 10, rect_y = 1, width = 2, height = 2\<rparr>"
    "img_start (refImages draggedAnalyzer) = None"
    "startRefMat draggedAnalyzer = Some sampleRef"
    "trackingOffset draggedAnalyzer = noOffset"
    by (simp_all add: dragged_value) (simp_all add: setupAnalyzer_def sampleStep_def sampleZone_def)
  with dragged_score show ?thesis by simp
qed

text \<open>
  The main loop does not look at the mode: with the video playing in setup mode, the next
  processed frame records the score of the moved zone against the old model.
\<close>

lemma dragged_frame_scored:
  "raw (signalState (fst (processFrame idBlur steadyMatch sampleProps draggedAnalyzer
                            sampleFrameIn))) = 1"
proof -
  have cells: "rect (hd (triggerSteps draggedAnalyzer)) = \<lparr>rect_x = 10, rect_y = 1, width = 2, height = 2\<rparr>"
    "startRefMat draggedAnalyzer = Some sampleRef"
    "trackingOffset draggedAnalyzer = noOffset"
    by (simp_all add: dragged_value) (simp_all add: setupAnalyzer_def sampleStep_def sampleZone_def)
  have more: "isCvReady draggedAnalyzer" "lastProcessTime draggedAnalyzer = 0"
    "anchorMat draggedAnalyzer = Some sampleTemplate"
    "anchorRect draggedAnalyzer = Some sampleAnchor"
    "triggerSteps draggedAnalyzer \<noteq> []"
    "isTrackingLost draggedAnalyzer = False"
    by (simp_all add: dragged_value) (simp_all add: setupAnalyzer_def)
  have tr: "trackAnchor steadyMatch sampleSrc (draggedAnalyzer\<lparr>lastProcessTime := 100\<rparr>)
     = draggedAnalyzer\<lparr>lastProcessTime := 100, trackingOffset := noOffset, isTrackingLost := False\<rparr>"
    by (simp add: trackAnchor_def cells more steadyMatch_def sample_searchRect sample_anchor_xy
          Let_def) (simp add: noOffset_def)
  show ?thesis
    by (simp add: processFrame_def sampleFrameIn_def more cells tr dragged_score Let_def)
qed

section \<open>The motion classifier\<close>

text \<open>
  C9, as amended.  A pose result without landmarks leaves the classifier as it was.  On
  a pose result that carries the landmarks, the classifier stores the two wrist positions
  as the previous position and each hand's smoothed velocity becomes
  \<open>0.7 * v_old + 0.3 * v_instant\<close>, where \<open>v_instant\<close> is the Euclidean
  displacement of the wrist since the previous such result (0 on the first); the frame is
  \<open>IDLE\<close> when the average of the two smoothed velocities is below 0.005,
  \<open>TRANSPORT\<close> when it is not and the average velocity exceeds 0.02 and the average
  wrist-to-nose distance exceeds 0.4, and \<open>OPERATION\<close> in every other case.  (An
  array too short to hold the wrists makes the callback throw once the landmarks are
  stored.)
\<close>

theorem onPoseResults_classify:
  "onPoseResults None st = (Returned, st)
   \<and> (length lm \<le> RIGHT_WRIST \<longrightarrow> onPoseResults (Some lm) st = (Thrown, st\<lparr>landmarks := lm\<rparr>))
   \<and> (RIGHT_WRIST < length lm \<and> onPoseResults (Some lm) st = (c, st') \<longrightarrow>
         c = Returned
       \<and> lastPos st' = Some \<lparr>lx = lm_x (lm ! LEFT_WRIST), ly = lm_y (lm ! LEFT_WRIST),
                              rx = lm_x (lm ! RIGHT_WRIST), ry = lm_y (lm ! RIGHT_WRIST)\<rparr>
       \<and> leftHandVel st' = 0.7 * leftHandVel st + 0.3 * leftDisplacement st lm
       \<and> rightHandVel st' = 0.7 * rightHandVel st + 0.3 * rightDisplacement st lm
       \<and> (avgVelocity st' < 0.005 \<longrightarrow> currentAction st' = IDLE_ACTION)
       \<and> (\<not> avgVelocity st' < 0.005 \<and> avgVelocity st' > 0.02 \<and> avgExtension lm > 0.4
            \<longrightarrow> currentAction st' = TRANSPORT)
       \<and> (\<not> avgVelocity st' < 0.005 \<and> \<not> (avgVelocity st' > 0.02 \<and> avgExtension lm > 0.4)
            \<longrightarrow> currentAction st' = OPERATION))
   \<and> (RIGHT_WRIST < length lm0 \<and> st = snd (onPoseResults (Some lm0) st0) \<longrightarrow>
         leftDisplacement st lm = euclid (landmarkAt lm LEFT_WRIST) (landmarkAt lm0 LEFT_WRIST)
       \<and> rightDisplacement st lm = euclid (landmarkAt lm RIGHT_WRIST) (landmarkAt lm0 RIGHT_WRIST))"
proof (intro conjI impI)
  show "onPoseResults None st = (Returned, st)"
    by (simp add: onPoseResults_def)
next
  assume "length lm \<le> RIGHT_WRIST"
  then show "onPoseResults (Some lm) st = (Thrown, st\<lparr>landmarks := lm\<rparr>)"
    by (simp add: onPoseResults_def Let_def)
next
  assume h: "RIGHT_WRIST < length lm \<and> onPoseResults (Some lm) st = (c, st')"
  then have len: "RIGHT_WRIST < length lm"
    and c: "c = fst (onPoseResults (Some lm) st)"
    and s: "st' = snd (onPoseResults (Some lm) st)" by simp_all
  note f = onPoseResults_landmarks[OF len, of st, folded c s]
  note a = onPoseResults_action[OF len, of st, folded s]
  show "c = Returned" by (rule f(1))
  show "lastPos st' = Some \<lparr>lx = lm_x (lm ! LEFT_WRIST), ly = lm_y (lm ! LEFT_WRIST),
                              rx = lm_x (lm ! RIGHT_WRIST), ry = lm_y (lm ! RIGHT_WRIST)\<rparr>"
    by (rule f(2))
  show "leftHandVel st' = 0.7 * leftHandVel st + 0.3 * leftDisplacement st lm" by (rule f(4))
  show "rightHandVel st' = 0.7 * rightHandVel st + 0.3 * rightDisplacement st lm" by (rule f(5))
  { assume "avgVelocity st' < 0.005"
    with a show "currentAction st' = IDLE_ACTION" by simp }
  { assume "\<not> avgVelocity st' < 0.005 \<and> avgVelocity st' > 0.02 \<and> avgExtension lm > 0.4"
    with a show "currentAction st' = TRANSPORT" by simp }
  { assume "\<not> avgVelocity st' < 0.005 \<and> \<not> (avgVelocity st' > 0.02 \<and> avgExtension lm > 0.4)"
    with a show "currentAction st' = OPERATION" by auto }
next
  assume h: "RIGHT_WRIST < length lm0 \<and> st = snd (onPoseResults (Some lm0) st0)"
  then have len: "RIGHT_WRIST < length lm0" and s: "st = snd (onPoseResults (Some lm0) st0)"
    by simp_all
  show "leftDisplacement st lm = euclid (landmarkAt lm LEFT_WRIST) (landmarkAt lm0 LEFT_WRIST)"
    unfolding s by (rule displacement_since(1)[OF len])
  show "rightDisplacement st lm = euclid (landmarkAt lm RIGHT_WRIST) (landmarkAt lm0 RIGHT_WRIST)"
    unfolding s by (rule displacement_since(2)[OF len])
qed

theorem onPoseResults_classify_witness:
  "RIGHT_WRIST < length (samplePose 0.5 0.5)
   \<and> onPoseResults None movingAI = (Returned, movingAI)
   \<and> length ([] :: Landmark list) \<le> RIGHT_WRIST
   \<and> onPoseResults (Some []) initAI = (Thrown, initAI\<lparr>landmarks := []\<rparr>)
   \<and> avgVelocity (snd (onPoseResults (Some (samplePose 0.5 0.5)) initAI)) = 0
   \<and> currentAction (snd (onPoseResults (Some (samplePose 0.5 0.5)) initAI)) = IDLE_ACTION
   \<and> leftHandVel (snd (onPoseResults (Some (samplePose 0.5 0.5)) movingAI)) = 0.07
   \<and> rightHandVel (snd (onPoseResults (Some (samplePose 0.5 0.5)) movingAI)) = 0.07
   \<and> lastPos (snd (onPoseResults (Some (samplePose 0.5 0.5)) movingAI))
       = Some \<lparr>lx = 0.2, ly = 0.9, rx = 0.8, ry = 0.9\<rparr>
   \<and> avgExtension (samplePose 0.5 0.5) = 0.5
   \<and> currentAction (snd (onPoseResults (Some (samplePose 0.5 0.5)) movingAI)) = TRANSPORT
   \<and> avgExtension (samplePose 0.5 0.9) = 0.3
   \<and> currentAction (snd (onPoseResults (Some (samplePose 0.5 0.9)) movingAI)) = OPERATION
   \<and> firstAI = snd (onPoseResults (Some (samplePose 0.5 0.5)) initAI)
   \<and> leftDisplacement firstAI movedPose = 0.05
   \<and> rightDisplacement firstAI movedPose = 0.05
   \<and> leftHandVel (snd (onPoseResults (Some movedPose) firstAI)) = 0.015
   \<and> rightHandVel (snd (onPoseResults (Some movedPose) firstAI)) = 0.015"
proof -
  let ?i = "snd (onPoseResults (Some (samplePose 0.5 0.5)) initAI)"
  let ?t = "snd (onPoseResults (Some (samplePose 0.5 0.5)) movingAI)"
  let ?o = "snd (onPoseResults (Some (samplePose 0.5 0.9)) movingAI)"
  let ?m = "snd (onPoseResults (Some movedPose) firstAI)"
  note I = onPoseResults_classify[where lm = "samplePose 0.5 0.5" and st = initAI,
        THEN conjunct2, THEN conjunct2, THEN conjunct1, THEN mp,
        OF conjI[OF samplePose_at(4) surjective_pairing]]
  note T = onPoseResults_classify[where lm = "samplePose 0.5 0.5" and st = movingAI,
        THEN conjunct2, THEN conjunct2, THEN conjunct1, THEN mp,
        OF conjI[OF samplePose_at(4) surjective_pairing]]
  note O = onPoseResults_classify[where lm = "samplePose 0.5 0.9" and st = movingAI,
        THEN conjunct2, THEN conjunct2, THEN conjunct1, THEN mp,
        OF conjI[OF samplePose_at(4) surjective_pairing]]
  note M = onPoseResults_classify[where lm = movedPose and st = firstAI,
        THEN conjunct2, THEN conjunct2, THEN conjunct1, THEN mp,
        OF conjI[OF movedPose_at(3) surjective_pairing]]
  note D = onPoseResults_classify[where lm = movedPose and st = firstAI
        and lm0 = "samplePose 0.5 0.5" and ?st0.0 = initAI,
        THEN conjunct2, THEN conjunct2, THEN conjunct2, THEN mp,
        OF conjI[OF samplePose_at(4) firstAI_def]]
  note N = onPoseResults_classify[where st = movingAI, THEN conjunct1]
  have short: "length ([] :: Landmark list) \<le> RIGHT_WRIST" by simp
  note S = onPoseResults_classify[where lm = "[]" and st = initAI,
        THEN conjunct2, THEN conjunct1, THEN mp, OF short]
  have vel0: "leftHandVel initAI = 0" "rightHandVel initAI = 0"
    and vel1: "leftHandVel movingAI = 0.1" "rightHandVel movingAI = 0.1"
    by (simp_all add: initAI_def movingAI_def)
  from I have "leftHandVel ?i = 0.7 * leftHandVel initAI + 0.3 * leftDisplacement initAI (samplePose 0.5 0.5)"
    and "rightHandVel ?i = 0.7 * rightHandVel initAI + 0.3 * rightDisplacement initAI (samplePose 0.5 0.5)"
    by blast+
  then have vi: "avgVelocity ?i = 0"
    by (simp add: avgVelocity_def vel0 sample_displacement)
  have "avgVelocity ?i < 0.005" using vi by simp
  with I have ai: "currentAction ?i = IDLE_ACTION" by blast
  from T have "leftHandVel ?t = 0.7 * leftHandVel movingAI + 0.3 * leftDisplacement movingAI (samplePose 0.5 0.5)"
    and "rightHandVel ?t = 0.7 * rightHandVel movingAI + 0.3 * rightDisplacement movingAI (samplePose 0.5 0.5)"
    by blast+
  then have lt: "leftHandVel ?t = 0.07" and rt: "rightHandVel ?t = 0.07"
    by (simp_all add: vel1 sample_displacement)
  then have vt: "avgVelocity ?t = 0.07" by (simp add: avgVelocity_def)
  from T have "lastPos ?t = Some \<lparr>lx = lm_x (samplePose 0.5 0.5 ! LEFT_WRIST),
      ly = lm_y (samplePose 0.5 0.5 ! LEFT_WRIST), rx = lm_x (samplePose 0.5 0.5 ! RIGHT_WRIST),
      ry = lm_y (samplePose 0.5 0.5 ! RIGHT_WRIST)\<rparr>" by blast
  then have lp: "lastPos ?t = Some \<lparr>lx = 0.2, ly = 0.9, rx = 0.8, ry = 0.9\<rparr>"
    by (simp add: samplePose_def LEFT_WRIST_def RIGHT_WRIST_def)
  have "\<not> avgVelocity ?t < 0.005" and "avgVelocity ?t > 0.02"
    and "avgExtension (samplePose 0.5 0.5) > 0.4"
    using vt sample_extension(1) by simp_all
  with T have at: "currentAction ?t = TRANSPORT" by blast
  from O have "leftHandVel ?o = 0.7 * leftHandVel movingAI + 0.3 * leftDisplacement movingAI (samplePose 0.5 0.9)"
    and "rightHandVel ?o = 0.7 * rightHandVel movingAI + 0.3 * rightDisplacement movingAI (samplePose 0.5 0.9)"
    by blast+
  then have vo: "avgVelocity ?o = 0.07" by (simp add: avgVelocity_def vel1 sample_displacement)
  have "\<not> avgVelocity ?o < 0.005" and "\<not> avgExtension (samplePose 0.5 0.9) > 0.4"
    using vo sample_extension(2) by simp_all
  with O have ao: "currentAction ?o = OPERATION" by blast
  from D have dl: "leftDisplacement firstAI movedPose = 0.05"
    and dr: "rightDisplacement firstAI movedPose = 0.05"
    by (simp_all add: moved_distance)
  from M have "leftHandVel ?m = 0.7 * leftHandVel firstAI + 0.3 * leftDisplacement firstAI movedPose"
    and "rightHandVel ?m = 0.7 * rightHandVel firstAI + 0.3 * rightDisplacement firstAI movedPose"
    by blast+
  then have lm: "leftHandVel ?m = 0.015" and rm: "rightHandVel ?m = 0.015"
    by (simp_all add: firstAI_vel dl dr)
  from N S short vi ai lt rt lp at ao dl dr lm rm firstAI_def
    samplePose_at(4)[of "0.5" "0.5"] sample_extension
  show ?thesis by blast
qed

text \<open>
  The claim as first stated speaks of every pose result.  Below, the classifier has seen
  two results in a row and both smoothed velocities are 0.015; a result without landmarks
  follows.  The velocities are still 0.015: they were not updated, and in particular they
  are not \<open>0.7 * 0.015\<close>, the value for a wrist that did not move.
\<close>

theorem pose_without_landmarks_counterexample:
  "onPoseResults None secondAI = (Returned, secondAI)
   \<and> leftHandVel secondAI = 0.015
   \<and> rightHandVel secondAI = 0.015
   \<and> leftHandVel (snd (onPoseResults None secondAI)) = 0.015
   \<and> rightHandVel (snd (onPoseResults None secondAI)) = 0.015
   \<and> leftHandVel (snd (onPoseResults None secondAI)) \<noteq> 0.7 * leftHandVel secondAI + 0.3 * 0
   \<and> rightHandVel (snd (onPoseResults None secondAI)) \<noteq> 0.7 * rightHandVel secondAI + 0.3 * 0"
  by (simp add: onPoseResults_def secondAI_vel)


end
